theory Spec2Isabelle
  imports Complex_Main
begin

section \<open>Numbers and vectors\<close>

text \<open>
  The program computes with JavaScript numbers. They are modelled as the reals: rounding,
  overflow and the special values of IEEE arithmetic are outside the model. Where the source
  divides, a theorem whose statement depends on the value of the quotient assumes a divisor
  different from zero, since a division by zero is \<open>0\<close> in HOL and \<open>NaN\<close> or an infinity
  in the program.
  Array indices are natural numbers.
\<close>

datatype error = TypeError

datatype Vector3 = Vector3 (vx: real) (vy: real) (vz: real)

definition addVectors :: "Vector3 \<Rightarrow> Vector3 \<Rightarrow> Vector3" where
  "addVectors a b = Vector3 (vx a + vx b) (vy a + vy b) (vz a + vz b)"

definition subVectors :: "Vector3 \<Rightarrow> Vector3 \<Rightarrow> Vector3" where
  "subVectors a b = Vector3 (vx a - vx b) (vy a - vy b) (vz a - vz b)"

definition multiplyScalar :: "Vector3 \<Rightarrow> real \<Rightarrow> Vector3" where
  "multiplyScalar v s = Vector3 (vx v * s) (vy v * s) (vz v * s)"

definition vlength :: "Vector3 \<Rightarrow> real" where
  "vlength v = sqrt (vx v * vx v + vy v * vy v + vz v * vz v)"

definition distanceTo :: "Vector3 \<Rightarrow> Vector3 \<Rightarrow> real" where
  "distanceTo a b =
     (let dx = vx a - vx b; dy = vy a - vy b; dz = vz a - vz b
      in sqrt (dx * dx + dy * dy + dz * dz))"

section \<open>Cloth physics (class SimpleClothPhysics)\<close>

record ClothVertex =
  position :: Vector3
  previousPosition :: Vector3
  velocity :: Vector3
  pinned :: bool
  mass :: real

record SpringConstraint =
  vertexA :: nat
  vertexB :: nat
  restLength :: real
  stiffness :: real

record SimpleClothPhysics =
  vertices :: "ClothVertex list"
  constraints :: "SpringConstraint list"

definition gravity :: Vector3 where
  "gravity = Vector3 0 (- 0.0005) 0"

definition damping :: real where
  "damping = 0.98"

definition maxStretch :: real where
  "maxStretch = 1.1"

text \<open>A geometry buffer: flat position (3 per vertex) and uv (2 per vertex) arrays and an
  optional triangle index.\<close>

record BufferGeometry =
  positionArray :: "real list"
  uvArray :: "real list"
  indexArray :: "nat list option"

definition positionCount :: "BufferGeometry \<Rightarrow> nat" where
  "positionCount g = length (positionArray g) div 3"

definition newVertex :: "Vector3 \<Rightarrow> ClothVertex" where
  "newVertex pos =
     \<lparr>position = pos, previousPosition = pos, velocity = Vector3 0 0 0,
      pinned = False, mass = 1\<rparr>"

definition createVertices :: "BufferGeometry \<Rightarrow> ClothVertex list" where
  "createVertices g =
     map (\<lambda>i. newVertex (Vector3 (positionArray g ! (3 * i))
                                  (positionArray g ! (3 * i + 1))
                                  (positionArray g ! (3 * i + 2))))
         [0 ..< positionCount g]"

text \<open>\<open>addEdge\<close>: the key of the edge set is the ordered pair of the two indices (the source
  joins them into a string). Reading the position of a vertex that does not exist throws.\<close>

definition addEdge ::
  "nat \<Rightarrow> nat \<Rightarrow> SimpleClothPhysics \<times> (nat \<times> nat) set
     \<Rightarrow> error + SimpleClothPhysics \<times> (nat \<times> nat) set" where
  "addEdge a b st =
     (let s = fst st; edgeSet = snd st;
          key = (if a < b then (a, b) else (b, a))
      in if key \<notin> edgeSet then
           (if a < length (vertices s) \<and> b < length (vertices s) then
              Inr (s\<lparr>constraints := constraints s @
                       [\<lparr>vertexA = a, vertexB = b,
                         restLength = distanceTo (position (vertices s ! a))
                                                 (position (vertices s ! b)),
                         stiffness = 0.5\<rparr>]\<rparr>,
                   insert key edgeSet)
            else Inl TypeError)
         else Inr st)"

text \<open>The loop over the index in steps of three. An index whose length is not a multiple of
  three makes the last reads undefined, and \<open>addEdge\<close> throws on them.\<close>

fun addTriangles ::
  "nat list \<Rightarrow> SimpleClothPhysics \<times> (nat \<times> nat) set
     \<Rightarrow> error + SimpleClothPhysics \<times> (nat \<times> nat) set" where
  "addTriangles [] st = Inr st"
| "addTriangles (a # b # c # rest) st =
     (case addEdge a b st of Inl e \<Rightarrow> Inl e | Inr st1 \<Rightarrow>
     (case addEdge b c st1 of Inl e \<Rightarrow> Inl e | Inr st2 \<Rightarrow>
     (case addEdge c a st2 of Inl e \<Rightarrow> Inl e | Inr st3 \<Rightarrow>
        addTriangles rest st3)))"
| "addTriangles _ st = Inl TypeError"

definition initializeFromGeometry :: "BufferGeometry \<Rightarrow> error + SimpleClothPhysics" where
  "initializeFromGeometry g =
     (let s = \<lparr>vertices = createVertices g, constraints = []\<rparr>
      in case indexArray g of
           None \<Rightarrow> Inr s
         | Some idx \<Rightarrow>
             (case addTriangles idx (s, {}) of Inl e \<Rightarrow> Inl e | Inr st \<Rightarrow> Inr (fst st)))"

definition pinVertex :: "nat \<Rightarrow> Vector3 \<Rightarrow> SimpleClothPhysics \<Rightarrow> SimpleClothPhysics" where
  "pinVertex index p s =
     (if index < length (vertices s) then
        s\<lparr>vertices := (vertices s)[index := (vertices s ! index)\<lparr>pinned := True, position := p\<rparr>]\<rparr>
      else s)"

definition unpinVertex :: "nat \<Rightarrow> SimpleClothPhysics \<Rightarrow> SimpleClothPhysics" where
  "unpinVertex index s =
     (if index < length (vertices s) then
        s\<lparr>vertices := (vertices s)[index := (vertices s ! index)\<lparr>pinned := False\<rparr>]\<rparr>
      else s)"

text \<open>The body of the first loop of \<open>update\<close>, for one vertex (Verlet integration).\<close>

definition integrateVertex :: "ClothVertex \<Rightarrow> ClothVertex" where
  "integrateVertex v =
     (if \<not> pinned v then
        (let temp = position v;
             v1 = v\<lparr>velocity := multiplyScalar (subVectors (position v) (previousPosition v)) damping\<rparr>;
             v2 = v1\<lparr>position := addVectors (position v1) (velocity v1)\<rparr>;
             v3 = v2\<lparr>position := addVectors (position v2) gravity\<rparr>
         in v3\<lparr>previousPosition := temp\<rparr>)
      else v)"

text \<open>The body of the inner loop of \<open>update\<close>, for one constraint. The second endpoint is
  read after the first has been written, as the source does through its object references.
  When \<open>distance\<close> is zero inside the correcting branch, the quotient of the program is an
  infinity and its correction is \<open>NaN\<close> in every coordinate; the reals have no such values,
  and no statement below depends on the value of the model there.\<close>

definition satisfyConstraint ::
  "SpringConstraint \<Rightarrow> ClothVertex list \<Rightarrow> error + ClothVertex list" where
  "satisfyConstraint c vs =
     (let a = vertexA c; b = vertexB c
      in if a < length vs \<and> b < length vs then
           (let diff = subVectors (position (vs ! b)) (position (vs ! a));
                distance = vlength diff
            in if distance > restLength c * maxStretch \<or> distance < restLength c * 0.9 then
                 (let correction =
                        multiplyScalar diff ((distance - restLength c) / distance * 0.5 * stiffness c);
                      vs1 = (if \<not> pinned (vs ! a)
                             then vs[a := (vs ! a)\<lparr>position := addVectors (position (vs ! a)) correction\<rparr>]
                             else vs);
                      vs2 = (if \<not> pinned (vs1 ! b)
                             then vs1[b := (vs1 ! b)\<lparr>position := subVectors (position (vs1 ! b)) correction\<rparr>]
                             else vs1)
                  in Inr vs2)
               else Inr vs)
         else Inl TypeError)"

fun relaxPass :: "SpringConstraint list \<Rightarrow> ClothVertex list \<Rightarrow> error + ClothVertex list" where
  "relaxPass [] vs = Inr vs"
| "relaxPass (c # cs) vs =
     (case satisfyConstraint c vs of Inl e \<Rightarrow> Inl e | Inr vs' \<Rightarrow> relaxPass cs vs')"

fun relaxIter :: "nat \<Rightarrow> SpringConstraint list \<Rightarrow> ClothVertex list \<Rightarrow> error + ClothVertex list" where
  "relaxIter 0 cs vs = Inr vs"
| "relaxIter (Suc n) cs vs =
     (case relaxPass cs vs of Inl e \<Rightarrow> Inl e | Inr vs' \<Rightarrow> relaxIter n cs vs')"

definition update :: "real \<Rightarrow> SimpleClothPhysics \<Rightarrow> error + SimpleClothPhysics" where
  "update deltaTime s =
     (case relaxIter 3 (constraints s) (map integrateVertex (vertices s)) of
        Inl e \<Rightarrow> Inl e
      | Inr vs \<Rightarrow> Inr (s\<lparr>vertices := vs\<rparr>))"

text \<open>\<open>n\<close> calls of \<open>update\<close> in a row, each with the default time step.\<close>

fun updates :: "nat \<Rightarrow> SimpleClothPhysics \<Rightarrow> error + SimpleClothPhysics" where
  "updates 0 s = Inr s"
| "updates (Suc n) s =
     (case update (1 / 60) s of Inl e \<Rightarrow> Inl e | Inr s' \<Rightarrow> updates n s')"

definition getVertexCount :: "SimpleClothPhysics \<Rightarrow> nat" where
  "getVertexCount s = length (vertices s)"

text \<open>Every constraint joins two vertices that exist. The constructor establishes this and
  no method changes it.\<close>

definition constraints_ok :: "SimpleClothPhysics \<Rightarrow> bool" where
  "constraints_ok s =
     list_all (\<lambda>c. vertexA c < length (vertices s) \<and> vertexB c < length (vertices s))
              (constraints s)"

text \<open>What a relaxation pass keeps of a vertex list: the length, of every vertex all fields
  but the position, and the position of every pinned vertex.\<close>

definition keeps_pins :: "ClothVertex list \<Rightarrow> ClothVertex list \<Rightarrow> bool" where
  "keeps_pins vs vs' =
     (length vs' = length vs \<and>
      (\<forall>j < length vs.
         pinned (vs' ! j) = pinned (vs ! j) \<and>
         previousPosition (vs' ! j) = previousPosition (vs ! j) \<and>
         velocity (vs' ! j) = velocity (vs ! j) \<and>
         mass (vs' ! j) = mass (vs ! j) \<and>
         (pinned (vs ! j) \<longrightarrow> position (vs' ! j) = position (vs ! j))))"

text \<open>What the constructor establishes for its constraints.\<close>

definition edges_ok :: "ClothVertex list \<Rightarrow> SpringConstraint list \<Rightarrow> bool" where
  "edges_ok vs cs =
     list_all (\<lambda>c. vertexA c < length vs \<and> vertexB c < length vs \<and> stiffness c = 0.5) cs"

text \<open>Sample inputs: a geometry of one right triangle with the sides 3, 4 and 5, and the
  cloth that the constructor builds from it; the cloth that the constructor builds from a
  geometry of one vertex and no index; and a pair of vertices at distance 5.\<close>

definition triangle_geometry :: BufferGeometry where
  "triangle_geometry =
     \<lparr>positionArray = [0, 0, 0, 3, 0, 0, 0, 4, 0], uvArray = [0, 0, 1, 0, 0, 1],
      indexArray = Some [0, 1, 2]\<rparr>"

definition triangle_cloth :: SimpleClothPhysics where
  "triangle_cloth =
     \<lparr>vertices = [newVertex (Vector3 0 0 0), newVertex (Vector3 3 0 0), newVertex (Vector3 0 4 0)],
      constraints = [\<lparr>vertexA = 0, vertexB = 1, restLength = 3, stiffness = 0.5\<rparr>,
                     \<lparr>vertexA = 1, vertexB = 2, restLength = 5, stiffness = 0.5\<rparr>,
                     \<lparr>vertexA = 2, vertexB = 0, restLength = 4, stiffness = 0.5\<rparr>]\<rparr>"

definition single_geometry :: BufferGeometry where
  "single_geometry = \<lparr>positionArray = [0, 0, 0], uvArray = [0, 0], indexArray = None\<rparr>"

definition single_cloth :: SimpleClothPhysics where
  "single_cloth = \<lparr>vertices = [newVertex (Vector3 0 0 0)], constraints = []\<rparr>"

definition stretched_pair :: "ClothVertex list" where
  "stretched_pair = [newVertex (Vector3 0 0 0), (newVertex (Vector3 3 4 0))\<lparr>pinned := True\<rparr>]"

text \<open>The triangle cloth with vertex 0 pinned to the point that the integration phase of the
  next update gives to vertex 1.\<close>

definition coincident_cloth :: SimpleClothPhysics where
  "coincident_cloth = pinVertex 0 (Vector3 3 (- 0.0005) 0) triangle_cloth"

section \<open>Garment geometry (createShirtGeometry, createPantsGeometry, createSkirtGeometry)\<close>

text \<open>
  Each counted loop of the source is a \<open>fold\<close> over its index range, the state being the
  arrays the loop pushes to. The buffers are single precision in the program and reals here;
  the vertex normals that \<open>computeVertexNormals\<close> adds are not part of the model.
\<close>

datatype GarmentType = Shirt | Pants | Skirt

text \<open>The body of the triangle loops, the same in the three functions: the two triangles
  of the cell \<open>(x, y)\<close> of a grid whose rows hold \<open>gridX + 1\<close> vertices, \<open>legOffset\<close> being
  \<open>0\<close> except for the second leg of the pants.\<close>

definition pushCell :: "nat \<Rightarrow> nat \<Rightarrow> nat \<Rightarrow> nat \<Rightarrow> nat list \<Rightarrow> nat list" where
  "pushCell legOffset gridX y x indices =
     (let a = legOffset + y * (gridX + 1) + x;
          b = a + 1;
          c = a + (gridX + 1);
          d = c + 1
      in (indices @ [a, c, b]) @ [b, c, d])"

definition shirtVertex :: "nat \<Rightarrow> nat \<Rightarrow> nat \<Rightarrow> nat \<Rightarrow> real list \<times> real list \<Rightarrow> real list \<times> real list" where
  "shirtVertex gridX gridY y x acc =
     (let torsoWidth = 1.2; torsoHeight = 1.0;
          u = real x / real gridX;
          v = real y / real gridY;
          xPos = (u - 0.5) * torsoWidth;
          yPos = (0.5 - v) * torsoHeight;
          zPos = 0.02 + cos ((u - 0.5) * pi) * 0.05
      in (fst acc @ [xPos, yPos, zPos], snd acc @ [u, 1 - v]))"

definition createShirtGeometry :: BufferGeometry where
  "createShirtGeometry =
     (let gridX = 12; gridY = 10;
          acc = fold (\<lambda>y. fold (shirtVertex gridX gridY y) [0 ..< gridX + 1]) [0 ..< gridY + 1] ([], []);
          indices = fold (\<lambda>y. fold (pushCell 0 gridX y) [0 ..< gridX]) [0 ..< gridY] []
      in \<lparr>positionArray = fst acc, uvArray = snd acc, indexArray = Some indices\<rparr>)"

definition leftLegVertex :: "nat \<Rightarrow> nat \<Rightarrow> nat \<Rightarrow> nat \<Rightarrow> real list \<times> real list \<Rightarrow> real list \<times> real list" where
  "leftLegVertex gridX gridY y x acc =
     (let legWidth = 0.35; legHeight = 1.0; legSpacing = 0.2;
          u = real x / real gridX;
          v = real y / real gridY;
          taperFactor = 1 - v * 0.2;
          xPos = (u - 0.5) * legWidth * taperFactor - legSpacing;
          yPos = (0.5 - v) * legHeight - 0.2;
          zPos = 0.02
      in (fst acc @ [xPos, yPos, zPos], snd acc @ [u * 0.5, 1 - v]))"

definition rightLegVertex :: "nat \<Rightarrow> nat \<Rightarrow> nat \<Rightarrow> nat \<Rightarrow> real list \<times> real list \<Rightarrow> real list \<times> real list" where
  "rightLegVertex gridX gridY y x acc =
     (let legWidth = 0.35; legHeight = 1.0; legSpacing = 0.2;
          u = real x / real gridX;
          v = real y / real gridY;
          taperFactor = 1 - v * 0.2;
          xPos = (u - 0.5) * legWidth * taperFactor + legSpacing;
          yPos = (0.5 - v) * legHeight - 0.2;
          zPos = 0.02
      in (fst acc @ [xPos, yPos, zPos], snd acc @ [0.5 + u * 0.5, 1 - v]))"

definition createPantsGeometry :: BufferGeometry where
  "createPantsGeometry =
     (let gridX = 6; gridY = 12;
          acc1 = fold (\<lambda>y. fold (leftLegVertex gridX gridY y) [0 ..< gridX + 1]) [0 ..< gridY + 1] ([], []);
          offset = (gridX + 1) * (gridY + 1);
          acc2 = fold (\<lambda>y. fold (rightLegVertex gridX gridY y) [0 ..< gridX + 1]) [0 ..< gridY + 1] acc1;
          indices = fold (\<lambda>leg. fold (\<lambda>y. fold (pushCell (leg * offset) gridX y) [0 ..< gridX])
                                       [0 ..< gridY])
                         [0 ..< 2] []
      in \<lparr>positionArray = fst acc2, uvArray = snd acc2, indexArray = Some indices\<rparr>)"

definition skirtVertex :: "nat \<Rightarrow> nat \<Rightarrow> nat \<Rightarrow> nat \<Rightarrow> real list \<times> real list \<Rightarrow> real list \<times> real list" where
  "skirtVertex gridX gridY y x acc =
     (let topWidth = 0.6; bottomWidth = 1.0; height = 0.7;
          v = real y / real gridY;
          width = topWidth + (bottomWidth - topWidth) * v;
          u = real x / real gridX;
          xPos = (u - 0.5) * width;
          yPos = (0.5 - v) * height - 0.15;
          zPos = 0.02 + cos ((u - 0.5) * pi) * 0.03
      in (fst acc @ [xPos, yPos, zPos], snd acc @ [u, 1 - v]))"

definition createSkirtGeometry :: BufferGeometry where
  "createSkirtGeometry =
     (let gridX = 14; gridY = 10;
          acc = fold (\<lambda>y. fold (skirtVertex gridX gridY y) [0 ..< gridX + 1]) [0 ..< gridY + 1] ([], []);
          indices = fold (\<lambda>y. fold (pushCell 0 gridX y) [0 ..< gridX]) [0 ..< gridY] []
      in \<lparr>positionArray = fst acc, uvArray = snd acc, indexArray = Some indices\<rparr>)"

text \<open>The \<open>default\<close> branch of the switch cannot be reached with a value of the type.\<close>

fun createGarmentGeometry :: "GarmentType \<Rightarrow> BufferGeometry" where
  "createGarmentGeometry Shirt = createShirtGeometry"
| "createGarmentGeometry Pants = createPantsGeometry"
| "createGarmentGeometry Skirt = createSkirtGeometry"

definition triangleCount :: "BufferGeometry \<Rightarrow> nat" where
  "triangleCount g = (case indexArray g of None \<Rightarrow> 0 | Some idx \<Rightarrow> length idx div 3)"

text \<open>The three indices of triangle number \<open>k\<close> of a geometry.\<close>

definition triangle :: "BufferGeometry \<Rightarrow> nat \<Rightarrow> nat list" where
  "triangle g k = (case indexArray g of None \<Rightarrow> [] | Some idx \<Rightarrow> take 3 (drop (3 * k) idx))"



text \<open>The six indices that the triangle loop pushes for one cell.\<close>

definition cell :: "nat \<Rightarrow> nat \<Rightarrow> nat \<Rightarrow> nat \<Rightarrow> nat list" where
  "cell off gx y x =
     [off + y * (gx + 1) + x, off + y * (gx + 1) + x + (gx + 1), off + y * (gx + 1) + x + 1,
      off + y * (gx + 1) + x + 1, off + y * (gx + 1) + x + (gx + 1),
      off + y * (gx + 1) + x + (gx + 1) + 1]"


section \<open>Pose landmarks and the skeleton (pose.ts, skeleton.ts)\<close>

record PoseLandmark =
  lm_x :: real
  lm_y :: real
  lm_z :: real
  visibility :: "real option"

definition LEFT_SHOULDER :: nat where "LEFT_SHOULDER = 11"
definition RIGHT_SHOULDER :: nat where "RIGHT_SHOULDER = 12"
definition LEFT_ELBOW :: nat where "LEFT_ELBOW = 13"
definition RIGHT_ELBOW :: nat where "RIGHT_ELBOW = 14"
definition LEFT_WRIST :: nat where "LEFT_WRIST = 15"
definition RIGHT_WRIST :: nat where "RIGHT_WRIST = 16"
definition LEFT_HIP :: nat where "LEFT_HIP = 23"
definition RIGHT_HIP :: nat where "RIGHT_HIP = 24"
definition LEFT_KNEE :: nat where "LEFT_KNEE = 25"
definition RIGHT_KNEE :: nat where "RIGHT_KNEE = 26"
definition LEFT_ANKLE :: nat where "LEFT_ANKLE = 27"
definition RIGHT_ANKLE :: nat where "RIGHT_ANKLE = 28"

text \<open>Reading an array element: \<open>None\<close> is the \<open>undefined\<close> of an index out of range.\<close>

definition element :: "'a list \<Rightarrow> nat \<Rightarrow> 'a option" where
  "element xs i = (if i < length xs then Some (xs ! i) else None)"

definition getMidpoint :: "PoseLandmark \<Rightarrow> PoseLandmark \<Rightarrow> PoseLandmark" where
  "getMidpoint a b =
     \<lparr>lm_x = (lm_x a + lm_x b) / 2,
      lm_y = (lm_y a + lm_y b) / 2,
      lm_z = (lm_z a + lm_z b) / 2,
      visibility = Some (min (case visibility a of None \<Rightarrow> 1 | Some va \<Rightarrow> va)
                             (case visibility b of None \<Rightarrow> 1 | Some vb \<Rightarrow> vb))\<rparr>"

definition getDistance :: "PoseLandmark \<Rightarrow> PoseLandmark \<Rightarrow> real" where
  "getDistance a b =
     (let dx = lm_x a - lm_x b; dy = lm_y a - lm_y b; dz = lm_z a - lm_z b
      in sqrt (dx * dx + dy * dy + dz * dz))"

text \<open>The object that \<open>extractSkeleton\<close> returns. The shoulders and the hips are read by
  \<open>getMidpoint\<close>, which throws on \<open>undefined\<close>; the other joints are only stored.\<close>

record ExtractedSkeleton =
  shoulders_left :: PoseLandmark
  shoulders_right :: PoseLandmark
  shoulders_center :: PoseLandmark
  hips_left :: PoseLandmark
  hips_right :: PoseLandmark
  hips_center :: PoseLandmark
  elbows_left :: "PoseLandmark option"
  elbows_right :: "PoseLandmark option"
  wrists_left :: "PoseLandmark option"
  wrists_right :: "PoseLandmark option"
  knees_left :: "PoseLandmark option"
  knees_right :: "PoseLandmark option"
  ankles_left :: "PoseLandmark option"
  ankles_right :: "PoseLandmark option"
  torsoLength :: real
  shoulderWidth :: real

definition extractSkeleton :: "PoseLandmark list \<Rightarrow> error + ExtractedSkeleton" where
  "extractSkeleton landmarks =
     (case (element landmarks LEFT_SHOULDER, element landmarks RIGHT_SHOULDER,
            element landmarks LEFT_HIP, element landmarks RIGHT_HIP) of
        (Some leftShoulder, Some rightShoulder, Some leftHip, Some rightHip) \<Rightarrow>
          (let shoulderCenter = getMidpoint leftShoulder rightShoulder;
               hipCenter = getMidpoint leftHip rightHip
           in Inr \<lparr>shoulders_left = leftShoulder, shoulders_right = rightShoulder,
                    shoulders_center = shoulderCenter,
                    hips_left = leftHip, hips_right = rightHip, hips_center = hipCenter,
                    elbows_left = element landmarks LEFT_ELBOW,
                    elbows_right = element landmarks RIGHT_ELBOW,
                    wrists_left = element landmarks LEFT_WRIST,
                    wrists_right = element landmarks RIGHT_WRIST,
                    knees_left = element landmarks LEFT_KNEE,
                    knees_right = element landmarks RIGHT_KNEE,
                    ankles_left = element landmarks LEFT_ANKLE,
                    ankles_right = element landmarks RIGHT_ANKLE,
                    torsoLength = getDistance shoulderCenter hipCenter,
                    shoulderWidth = getDistance leftShoulder rightShoulder\<rparr>)
      | _ \<Rightarrow> Inl TypeError)"

definition isPoseValid :: "PoseLandmark list \<Rightarrow> bool" where
  "isPoseValid landmarks =
     list_all (\<lambda>index. case element landmarks index of
                          None \<Rightarrow> False
                        | Some landmark \<Rightarrow>
                            (case visibility landmark of None \<Rightarrow> 0 | Some v \<Rightarrow> v) > 0.5)
              [LEFT_SHOULDER, RIGHT_SHOULDER, LEFT_HIP, RIGHT_HIP]"

definition landmarkToVector3 :: "PoseLandmark \<Rightarrow> real \<Rightarrow> real \<Rightarrow> real \<Rightarrow> Vector3" where
  "landmarkToVector3 landmark width height scale =
     Vector3 ((lm_x landmark - 0.5) * scale * (width / height))
             (- (lm_y landmark - 0.5) * scale)
             (- lm_z landmark * scale)"

text \<open>\<open>normalize\<close> of the vector library divides by the length, or by 1 when the length
  is zero.\<close>

definition normalize :: "Vector3 \<Rightarrow> Vector3" where
  "normalize v = multiplyScalar v (1 / (if vlength v = 0 then 1 else vlength v))"

text \<open>
  The rotation of a bone is an Euler triple that the vector library computes from two unit
  vectors (\<open>Quaternion.setFromUnitVectors\<close> followed by \<open>Euler.setFromQuaternion\<close>). That
  computation belongs to the library and is the parameter \<open>euler\<close> of the model.
\<close>

definition getRotationBetweenPoints ::
  "(Vector3 \<Rightarrow> Vector3 \<Rightarrow> 'r) \<Rightarrow> Vector3 \<Rightarrow> Vector3 \<Rightarrow> 'r" where
  "getRotationBetweenPoints euler from to =
     (let direction = normalize (subVectors to from);
          defaultDir = Vector3 0 (- 1) 0
      in euler defaultDir direction)"

record 'r SkeletonBone =
  bone_name :: string
  bone_position :: Vector3
  bone_rotation :: 'r
  bone_length :: real

record 'r Skeleton3D =
  spine :: "'r SkeletonBone"
  leftArm_shoulder :: "'r SkeletonBone"
  leftArm_elbow :: "'r SkeletonBone"
  rightArm_shoulder :: "'r SkeletonBone"
  rightArm_elbow :: "'r SkeletonBone"
  leftLeg_hip :: "'r SkeletonBone"
  leftLeg_knee :: "'r SkeletonBone"
  rightLeg_hip :: "'r SkeletonBone"
  rightLeg_knee :: "'r SkeletonBone"

definition bone :: "(Vector3 \<Rightarrow> Vector3 \<Rightarrow> 'r) \<Rightarrow> string \<Rightarrow> Vector3 \<Rightarrow> Vector3 \<Rightarrow> 'r SkeletonBone" where
  "bone euler name from to =
     \<lparr>bone_name = name, bone_position = from,
      bone_rotation = getRotationBetweenPoints euler from to,
      bone_length = distanceTo from to\<rparr>"

definition createSkeleton3D ::
  "(Vector3 \<Rightarrow> Vector3 \<Rightarrow> 'r) \<Rightarrow> PoseLandmark list \<Rightarrow> real \<Rightarrow> real \<Rightarrow> error + 'r Skeleton3D" where
  "createSkeleton3D euler landmarks canvasWidth canvasHeight =
     (case extractSkeleton landmarks of
        Inl e \<Rightarrow> Inl e
      | Inr skeleton \<Rightarrow>
          (case (elbows_left skeleton, elbows_right skeleton,
                 wrists_left skeleton, wrists_right skeleton,
                 knees_left skeleton, knees_right skeleton,
                 ankles_left skeleton, ankles_right skeleton) of
             (Some leftElbow, Some rightElbow, Some leftWrist, Some rightWrist,
              Some leftKnee, Some rightKnee, Some leftAnkle, Some rightAnkle) \<Rightarrow>
               (let scale = 2;
                    leftShoulderPos = landmarkToVector3 (shoulders_left skeleton) canvasWidth canvasHeight scale;
                    rightShoulderPos = landmarkToVector3 (shoulders_right skeleton) canvasWidth canvasHeight scale;
                    leftHipPos = landmarkToVector3 (hips_left skeleton) canvasWidth canvasHeight scale;
                    rightHipPos = landmarkToVector3 (hips_right skeleton) canvasWidth canvasHeight scale;
                    leftElbowPos = landmarkToVector3 leftElbow canvasWidth canvasHeight scale;
                    rightElbowPos = landmarkToVector3 rightElbow canvasWidth canvasHeight scale;
                    leftWristPos = landmarkToVector3 leftWrist canvasWidth canvasHeight scale;
                    rightWristPos = landmarkToVector3 rightWrist canvasWidth canvasHeight scale;
                    leftKneePos = landmarkToVector3 leftKnee canvasWidth canvasHeight scale;
                    rightKneePos = landmarkToVector3 rightKnee canvasWidth canvasHeight scale;
                    leftAnklePos = landmarkToVector3 leftAnkle canvasWidth canvasHeight scale;
                    rightAnklePos = landmarkToVector3 rightAnkle canvasWidth canvasHeight scale;
                    shoulderCenter = multiplyScalar (addVectors leftShoulderPos rightShoulderPos) 0.5;
                    hipCenter = multiplyScalar (addVectors leftHipPos rightHipPos) 0.5
                in Inr \<lparr>spine = bone euler ''spine'' shoulderCenter hipCenter,
                         leftArm_shoulder = bone euler ''leftShoulder'' leftShoulderPos leftElbowPos,
                         leftArm_elbow = bone euler ''leftElbow'' leftElbowPos leftWristPos,
                         rightArm_shoulder = bone euler ''rightShoulder'' rightShoulderPos rightElbowPos,
                         rightArm_elbow = bone euler ''rightElbow'' rightElbowPos rightWristPos,
                         leftLeg_hip = bone euler ''leftHip'' leftHipPos leftKneePos,
                         leftLeg_knee = bone euler ''leftKnee'' leftKneePos leftAnklePos,
                         rightLeg_hip = bone euler ''rightHip'' rightHipPos rightKneePos,
                         rightLeg_knee = bone euler ''rightKnee'' rightKneePos rightAnklePos\<rparr>)
           | _ \<Rightarrow> Inl TypeError))"


section \<open>Placement and anchoring (useGarmentRenderer.updateFromSkeleton)\<close>

text \<open>
  Of the renderer only the two references that \<open>updateFromSkeleton\<close> uses are modelled: the
  garment mesh, with its position and its scale, and the physics; \<open>None\<close> is a reference
  that is still \<open>null\<close>.
\<close>

record Mesh =
  mesh_position :: Vector3
  mesh_scale :: Vector3

record Renderer =
  garmentMesh :: "Mesh option"
  physics :: "SimpleClothPhysics option"

definition setX :: "Vector3 \<Rightarrow> real \<Rightarrow> Vector3" where
  "setX v a = Vector3 a (vy v) (vz v)"

definition setY :: "Vector3 \<Rightarrow> real \<Rightarrow> Vector3" where
  "setY v a = Vector3 (vx v) a (vz v)"

definition setZ :: "Vector3 \<Rightarrow> real \<Rightarrow> Vector3" where
  "setZ v a = Vector3 (vx v) (vy v) a"

text \<open>The three branches of the placement, on the mesh.\<close>

definition placeShirt :: "'r Skeleton3D \<Rightarrow> Mesh \<Rightarrow> Mesh" where
  "placeShirt skeleton mesh =
     (let shoulderCenter = bone_position (spine skeleton);
          hipCenter = multiplyScalar (addVectors (bone_position (leftLeg_hip skeleton))
                                                 (bone_position (rightLeg_hip skeleton))) 0.5;
          torsoCenter = multiplyScalar (addVectors shoulderCenter hipCenter) 0.5;
          m1 = mesh\<lparr>mesh_position := torsoCenter\<rparr>;
          m2 = m1\<lparr>mesh_position := setZ (mesh_position m1) 0.1\<rparr>;
          shoulderDist = distanceTo (bone_position (leftArm_shoulder skeleton))
                                    (bone_position (rightArm_shoulder skeleton));
          torsoHeight = distanceTo shoulderCenter hipCenter;
          m3 = m2\<lparr>mesh_position := setY (mesh_position m2) (vy (mesh_position m2) - torsoHeight * 0.08)\<rparr>;
          scaleX = shoulderDist * 1.55;
          scaleY = torsoHeight * 1.55
      in m3\<lparr>mesh_scale := Vector3 scaleX scaleY 1\<rparr>)"

definition placePants :: "'r Skeleton3D \<Rightarrow> Mesh \<Rightarrow> Mesh" where
  "placePants skeleton mesh =
     (let hipCenter = multiplyScalar (addVectors (bone_position (leftLeg_hip skeleton))
                                                 (bone_position (rightLeg_hip skeleton))) 0.5;
          leftThigh = distanceTo (bone_position (leftLeg_hip skeleton))
                                 (bone_position (leftLeg_knee skeleton));
          rightThigh = distanceTo (bone_position (rightLeg_hip skeleton))
                                  (bone_position (rightLeg_knee skeleton));
          legLength = max leftThigh rightThigh * 2;
          m1 = mesh\<lparr>mesh_position := hipCenter\<rparr>;
          m2 = m1\<lparr>mesh_position := setY (mesh_position m1) (vy (mesh_position m1) - 0.12)\<rparr>;
          m3 = m2\<lparr>mesh_position := setZ (mesh_position m2) 0.1\<rparr>;
          hipDist = distanceTo (bone_position (leftLeg_hip skeleton))
                               (bone_position (rightLeg_hip skeleton));
          scaleX = hipDist * 2.0;
          scaleY = legLength * 1.25
      in m3\<lparr>mesh_scale := Vector3 scaleX scaleY 1\<rparr>)"

definition placeSkirt :: "'r Skeleton3D \<Rightarrow> Mesh \<Rightarrow> Mesh" where
  "placeSkirt skeleton mesh =
     (let hipCenter = multiplyScalar (addVectors (bone_position (leftLeg_hip skeleton))
                                                 (bone_position (rightLeg_hip skeleton))) 0.5;
          m1 = mesh\<lparr>mesh_position := hipCenter\<rparr>;
          m2 = m1\<lparr>mesh_position := setZ (mesh_position m1) 0.1\<rparr>;
          hipDist = distanceTo (bone_position (leftLeg_hip skeleton))
                               (bone_position (rightLeg_hip skeleton));
          scale = hipDist * 1.6
      in m2\<lparr>mesh_scale := Vector3 scale scale 1\<rparr>)"

text \<open>The body of the pinning loop, for the top-row vertex \<open>i\<close>.\<close>

definition pinTopVertex ::
  "GarmentType \<Rightarrow> 'r Skeleton3D \<Rightarrow> Mesh \<Rightarrow> nat \<Rightarrow> nat \<Rightarrow> SimpleClothPhysics \<Rightarrow> SimpleClothPhysics" where
  "pinTopVertex garmentType skeleton mesh gridWidth i ph =
     (let t = real i / real (gridWidth - 1);
          pinPosition = mesh_position mesh;
          pinPosition' =
            (if garmentType = Shirt then
               setY (setX pinPosition
                       (vx (bone_position (leftArm_shoulder skeleton)) * (1 - t) +
                        vx (bone_position (rightArm_shoulder skeleton)) * t))
                    (vy (bone_position (spine skeleton)) + 0.1)
             else
               setY (setX pinPosition
                       (vx (bone_position (leftLeg_hip skeleton)) * (1 - t) +
                        vx (bone_position (rightLeg_hip skeleton)) * t))
                    (vy (bone_position (leftLeg_hip skeleton))))
      in pinVertex i pinPosition' ph)"

definition updateFromSkeleton ::
  "(Vector3 \<Rightarrow> Vector3 \<Rightarrow> 'r) \<Rightarrow> GarmentType \<Rightarrow> real \<Rightarrow> real \<Rightarrow> PoseLandmark list
     \<Rightarrow> Renderer \<Rightarrow> error + Renderer" where
  "updateFromSkeleton euler garmentType canvasWidth canvasHeight landmarks r =
     (case (garmentMesh r, physics r) of
        (Some mesh, Some ph) \<Rightarrow>
          (case createSkeleton3D euler landmarks canvasWidth canvasHeight of
             Inl e \<Rightarrow> Inl e
           | Inr skeleton \<Rightarrow>
               (let mesh' = (if garmentType = Shirt then placeShirt skeleton mesh
                             else if garmentType = Pants then placePants skeleton mesh
                             else if garmentType = Skirt then placeSkirt skeleton mesh
                             else mesh);
                    gridWidth = (if garmentType = Shirt then 13
                                 else (if garmentType = Pants then 7 else 15));
                    vertexCount = getVertexCount ph;
                    ph' = fold (pinTopVertex garmentType skeleton mesh' gridWidth)
                               [0 ..< min gridWidth vertexCount] ph
                in Inr (r\<lparr>garmentMesh := Some mesh', physics := Some ph'\<rparr>)))
      | _ \<Rightarrow> Inr r)"

text \<open>A pose of 33 landmarks used as a sample input: the landmarks with an odd index lie
  on the line \<open>x = 0.2\<close>, those with an even index on \<open>x = 0.5\<close>, each pair lower than the
  pair before, and the right knee (landmark 26) lower still.\<close>

definition sample_landmarks :: "PoseLandmark list" where
  "sample_landmarks =
     (map (\<lambda>i. \<lparr>lm_x = (if even i then 0.5 else 0.2), lm_y = real ((i + 1) div 2) / 40,
                 lm_z = 0, visibility = Some 0.9\<rparr>)
          [0 ..< 33])
     [26 := \<lparr>lm_x = 0.5, lm_y = 0.7, lm_z = 0, visibility = Some 0.9\<rparr>]"


text \<open>A renderer whose mesh is at the origin with unit scale and whose physics is the
  triangle cloth.\<close>

definition sample_renderer :: Renderer where
  "sample_renderer =
     \<lparr>garmentMesh = Some \<lparr>mesh_position = Vector3 0 0 0, mesh_scale = Vector3 1 1 1\<rparr>,
      physics = Some triangle_cloth\<rparr>"

section \<open>Image extraction service (supabase/functions/extract-image/index.ts)\<close>

subsection \<open>Strings and regular expressions\<close>

text \<open>
  A string of the program is a sequence of UTF-16 code units. A code unit is written as its
  high and its low byte, so \<open>CodeUnit (CHR 0x00) (CHR 0x41)\<close> is the letter \<open>A\<close> and
  \<open>CodeUnit (CHR 0xFE) (CHR 0xFF)\<close> is \<open>U+FEFF\<close>. \<open>fromCharCode\<close> is \<open>String.fromCharCode\<close> on a
  byte, and \<open>str\<close> writes a string literal of the source, all of whose characters are ASCII.
  The bytes of a response body are a list of \<open>char\<close>.

  The methods of the language that the service uses (\<open>startsWith\<close>, \<open>includes\<close>, \<open>trim\<close>, and
  the regular expressions with \<open>test\<close>, \<open>match\<close> and \<open>replace\<close>) are written out for the
  constructs that occur in this file. No regular expression of the file has the flag \<open>u\<close>:
  they match code unit by code unit.
\<close>

datatype codeunit = CodeUnit (high: char) (low: char)

type_synonym jsstring = "codeunit list"

definition fromCharCode :: "char \<Rightarrow> codeunit" where
  "fromCharCode byte = CodeUnit (CHR 0x00) byte"

definition str :: "string \<Rightarrow> jsstring" where
  "str literal = map fromCharCode literal"

text \<open>The lower case of an ASCII letter, on the eight bits of the character (the lowest one
  first): the capital letters are the codes \<open>0x41\<close> to \<open>0x5A\<close>, and the small letter has
  bit 5 set.\<close>

definition isUpper :: "char \<Rightarrow> bool" where
  "isUpper c =
     (case c of Char b0 b1 b2 b3 b4 b5 b6 b7 \<Rightarrow>
        b6 \<and> \<not> b5 \<and> \<not> b7 \<and> (b0 \<or> b1 \<or> b2 \<or> b3 \<or> b4)
        \<and> \<not> (b3 \<and> b4 \<and> (b2 \<or> (b0 \<and> b1))))"

definition toLower :: "char \<Rightarrow> char" where
  "toLower c =
     (case c of Char b0 b1 b2 b3 b4 b5 b6 b7 \<Rightarrow>
        if isUpper c then Char b0 b1 b2 b3 b4 True b6 b7 else c)"

text \<open>
  Every regular expression of the file has the flag \<open>i\<close>. A code unit of the input then
  matches a code unit of the pattern when both have the same canonical form, which is the
  upper case of the code unit, except that a code unit from \<open>0x80\<close> on is never mapped to one
  below \<open>0x80\<close>. All literal characters and all members of the bracketed classes in the
  patterns of this file are ASCII, and the canonical form of a code unit from \<open>0x80\<close> on is
  not ASCII: so a code unit matches a pattern character exactly when they are equal up to the
  case of ASCII letters. \<open>foldCase\<close> maps the ASCII capital letters to the small ones and
  every other code unit to itself.
\<close>

definition foldCase :: "codeunit \<Rightarrow> codeunit" where
  "foldCase c =
     (case c of CodeUnit h l \<Rightarrow> if h = CHR 0x00 then CodeUnit h (toLower l) else c)"

text \<open>\<open>litPrefix l s\<close>: the rest of \<open>s\<close> after the literal \<open>l\<close>, compared without regard to
  case, if \<open>s\<close> starts with it.\<close>

fun litPrefix :: "jsstring \<Rightarrow> jsstring \<Rightarrow> jsstring option" where
  "litPrefix [] s = Some s"
| "litPrefix (p # ps) [] = None"
| "litPrefix (p # ps) (c # cs) = (if foldCase c = foldCase p then litPrefix ps cs else None)"

fun startsWith :: "jsstring \<Rightarrow> jsstring \<Rightarrow> bool" where
  "startsWith s [] = True"
| "startsWith [] (p # ps) = False"
| "startsWith (c # cs) (p # ps) = (c = p \<and> startsWith cs ps)"

fun includes_str :: "jsstring \<Rightarrow> jsstring \<Rightarrow> bool" where
  "includes_str [] p = (p = [])"
| "includes_str (c # cs) p = (startsWith (c # cs) p \<or> includes_str cs p)"

text \<open>
  White space and line terminators of the language: \<open>trim\<close> removes both, and the class \<open>\s\<close>
  is their union. White space is TAB, VT, FF, \<open>U+FEFF\<close> and the space separators of Unicode
  (\<open>U+0020\<close>, \<open>U+00A0\<close>, \<open>U+1680\<close>, \<open>U+2000\<close> to \<open>U+200A\<close>, \<open>U+202F\<close>, \<open>U+205F\<close>, \<open>U+3000\<close>); the
  line terminators are LF, CR, \<open>U+2028\<close> and \<open>U+2029\<close>.
\<close>

definition whiteSpace :: "codeunit list" where
  "whiteSpace =
     [CodeUnit (CHR 0x00) (CHR 0x09), CodeUnit (CHR 0x00) (CHR 0x0B), CodeUnit (CHR 0x00) (CHR 0x0C),
      CodeUnit (CHR 0x00) (CHR 0x20), CodeUnit (CHR 0x00) (CHR 0xA0), CodeUnit (CHR 0x16) (CHR 0x80),
      CodeUnit (CHR 0x20) (CHR 0x00), CodeUnit (CHR 0x20) (CHR 0x01), CodeUnit (CHR 0x20) (CHR 0x02),
      CodeUnit (CHR 0x20) (CHR 0x03), CodeUnit (CHR 0x20) (CHR 0x04), CodeUnit (CHR 0x20) (CHR 0x05),
      CodeUnit (CHR 0x20) (CHR 0x06), CodeUnit (CHR 0x20) (CHR 0x07), CodeUnit (CHR 0x20) (CHR 0x08),
      CodeUnit (CHR 0x20) (CHR 0x09), CodeUnit (CHR 0x20) (CHR 0x0A), CodeUnit (CHR 0x20) (CHR 0x2F),
      CodeUnit (CHR 0x20) (CHR 0x5F), CodeUnit (CHR 0x30) (CHR 0x00), CodeUnit (CHR 0xFE) (CHR 0xFF)]"

definition lineTerminator :: "codeunit list" where
  "lineTerminator =
     [CodeUnit (CHR 0x00) (CHR 0x0A), CodeUnit (CHR 0x00) (CHR 0x0D),
      CodeUnit (CHR 0x20) (CHR 0x28), CodeUnit (CHR 0x20) (CHR 0x29)]"

definition isSpace :: "codeunit \<Rightarrow> bool" where
  "isSpace c = (c \<in> set (whiteSpace @ lineTerminator))"

definition trim :: "jsstring \<Rightarrow> jsstring" where
  "trim s = rev (dropWhile isSpace (rev (dropWhile isSpace s)))"

text \<open>Character classes: \<open>[...]\<close>, \<open>[^...]\<close>, \<open>\s\<close>, the dot (any character but a line
  terminator) and \<open>[\s\S]\<close> (any character).\<close>

datatype cls = OneOf jsstring | NoneOf jsstring | WhiteSpace | Dot | AnyChar

fun inCls :: "cls \<Rightarrow> codeunit \<Rightarrow> bool" where
  "inCls (OneOf cs) c = (c \<in> set cs)"
| "inCls (NoneOf cs) c = (c \<notin> set cs)"
| "inCls WhiteSpace c = isSpace c"
| "inCls Dot c = (c \<notin> set lineTerminator)"
| "inCls AnyChar c = True"

text \<open>Regular expressions: a literal text, one character of a class, \<open>+\<close>, \<open>*\<close> and \<open>*?\<close> on a
  class, sequence, alternative, the capturing group whose text the program reads, \<open>?\<close> and
  \<open>$\<close>. A group whose capture is never read is written without \<open>Group\<close>.\<close>

datatype regex =
    Lit jsstring
  | One cls
  | Plus cls
  | Star cls
  | LazyStar cls
  | Seq regex regex
  | Alt regex regex
  | Group regex
  | Opt regex
  | End

text \<open>\<open>spans c s\<close>: what is left of \<open>s\<close> after 0, 1, 2, ... leading characters of the class
  \<open>c\<close>.\<close>

fun spans :: "cls \<Rightarrow> jsstring \<Rightarrow> jsstring list" where
  "spans c [] = [[]]"
| "spans c (x # xs) = (x # xs) # (if inCls c x then spans c xs else [])"

text \<open>
  \<open>matches r (s, g)\<close>: all ways in which \<open>r\<close> matches a prefix of \<open>s\<close>, in the order in which
  a backtracking matcher tries them, each as the rest of the input and the text of the
  capturing group (\<open>g\<close> before the match).
\<close>

fun matches ::
  "regex \<Rightarrow> jsstring \<times> jsstring option \<Rightarrow> (jsstring \<times> jsstring option) list" where
  "matches (Lit l) st =
     (case litPrefix l (fst st) of None \<Rightarrow> [] | Some rest \<Rightarrow> [(rest, snd st)])"
| "matches (One c) st =
     (case fst st of [] \<Rightarrow> [] | x # xs \<Rightarrow> if inCls c x then [(xs, snd st)] else [])"
| "matches (Plus c) st = map (\<lambda>r. (r, snd st)) (rev (tl (spans c (fst st))))"
| "matches (Star c) st = map (\<lambda>r. (r, snd st)) (rev (spans c (fst st)))"
| "matches (LazyStar c) st = map (\<lambda>r. (r, snd st)) (spans c (fst st))"
| "matches (Seq a b) st = concat (map (matches b) (matches a st))"
| "matches (Alt a b) st = matches a st @ matches b st"
| "matches (Group a) st =
     map (\<lambda>r. (fst r, Some (take (length (fst st) - length (fst r)) (fst st)))) (matches a st)"
| "matches (Opt a) st = matches a st @ [st]"
| "matches End st = (if fst st = [] then [st] else [])"

text \<open>\<open>string.match(regex)\<close> without the flag \<open>g\<close>: the first match at the leftmost position;
  the result is the text of the capturing group, \<open>None\<close> when there is no match.\<close>

fun matchGroup :: "regex \<Rightarrow> jsstring \<Rightarrow> jsstring option" where
  "matchGroup r [] = (case matches r ([], None) of [] \<Rightarrow> None | m # _ \<Rightarrow> snd m)"
| "matchGroup r (c # cs) =
     (case matches r (c # cs, None) of [] \<Rightarrow> matchGroup r cs | m # _ \<Rightarrow> snd m)"

text \<open>\<open>regex.test(string)\<close>.\<close>

fun test :: "regex \<Rightarrow> jsstring \<Rightarrow> bool" where
  "test r [] = (matches r ([], None) \<noteq> [])"
| "test r (c # cs) = (matches r (c # cs, None) \<noteq> [] \<or> test r cs)"

text \<open>\<open>string.match(regex)\<close> with the flag \<open>g\<close>: the texts of all matches, from left to
  right, none overlapping the one before. \<open>skip\<close> is the number of characters still covered
  by the last match.\<close>

fun matchAll :: "regex \<Rightarrow> nat \<Rightarrow> jsstring \<Rightarrow> jsstring list" where
  "matchAll r skip [] =
     (if skip = 0 \<and> matches r ([], None) \<noteq> [] then [[]] else [])"
| "matchAll r skip (c # cs) =
     (if skip > 0 then matchAll r (skip - 1) cs
      else case matches r (c # cs, None) of
             [] \<Rightarrow> matchAll r 0 cs
           | m # _ \<Rightarrow>
               (let n = length (c # cs) - length (fst m)
                in take n (c # cs) # matchAll r (n - 1) cs))"

text \<open>\<open>string.replace(regex, '')\<close> with the flag \<open>g\<close>: the text outside the matches.\<close>

fun removeAll :: "regex \<Rightarrow> nat \<Rightarrow> jsstring \<Rightarrow> jsstring" where
  "removeAll r skip [] = []"
| "removeAll r skip (c # cs) =
     (if skip > 0 then removeAll r (skip - 1) cs
      else case matches r (c # cs, None) of
             [] \<Rightarrow> c # removeAll r 0 cs
           | m # _ \<Rightarrow>
               (let n = length (c # cs) - length (fst m)
                in if n = 0 then c # removeAll r 0 cs else removeAll r (n - 1) cs))"

subsection \<open>isValidImageUrl\<close>

definition imageExtension :: regex where
  "imageExtension =
     Seq (Lit (str ''.''))
       (Seq (Alt (Lit (str ''jpg'')) (Alt (Lit (str ''jpeg'')) (Alt (Lit (str ''png''))
               (Alt (Lit (str ''gif'')) (Alt (Lit (str ''webp'')) (Lit (str ''avif'')))))))
         (Seq (Opt (Seq (Lit (str ''?'')) (Star Dot))) End))"

definition invalidPatterns :: "jsstring list" where
  "invalidPatterns =
     map str
       [''<'', ''>'', ''{'', ''}'', ''background-image'', ''url('', ''</style'', ''<script'',
        ''.nav-sprite'', ''.css'', ''sprite'']"

definition validPatterns :: "regex list" where
  "validPatterns =
     [imageExtension, Lit (str ''images.''), Lit (str ''.media-amazon.com''), Lit (str ''cdn.''),
      Lit (str ''.cloudinary.com''), Lit (str ''.imgix.net'')]"

definition isValidImageUrl :: "jsstring \<Rightarrow> bool" where
  "isValidImageUrl urlString =
     (if urlString = [] then False
      else if \<not> startsWith urlString (str ''http://'') \<and> \<not> startsWith urlString (str ''https://'')
              \<and> \<not> startsWith urlString (str ''//'') then False
      else if list_ex (includes_str urlString) invalidPatterns then False
      else list_ex (\<lambda>pattern. test pattern urlString) validPatterns)"

subsection \<open>extractImageFromJson\<close>

text \<open>The value that \<open>JSON.parse\<close> returns. A missing property and \<open>null\<close> as the result of
  a function are \<open>None\<close>.\<close>

datatype json =
    JNull
  | JBool bool
  | JNumber real
  | JString jsstring
  | JArray "json list"
  | JObject "(jsstring \<times> json) list"

fun truthy :: "json \<Rightarrow> bool" where
  "truthy JNull = False"
| "truthy (JBool b) = b"
| "truthy (JNumber n) = (n \<noteq> 0)"
| "truthy (JString s) = (s \<noteq> [])"
| "truthy (JArray xs) = True"
| "truthy (JObject kvs) = True"

text \<open>Reading the property \<open>image\<close>, \<open>url\<close> or \<open>@graph\<close>: only an object can have it.\<close>

fun getProp :: "json \<Rightarrow> jsstring \<Rightarrow> json option" where
  "getProp (JObject kvs) k = map_of kvs k"
| "getProp _ k = None"

definition graphItems :: "json \<Rightarrow> json list option" where
  "graphItems data = (case getProp data (str ''@graph'') of Some (JArray items) \<Rightarrow> Some items | _ \<Rightarrow> None)"

definition truthyResult :: "json option \<Rightarrow> bool" where
  "truthyResult r = (case r of None \<Rightarrow> False | Some v \<Rightarrow> truthy v)"

text \<open>\<open>data.image?.url\<close>, for the value of \<open>data.image\<close>.\<close>

definition urlOf :: "json option \<Rightarrow> json option" where
  "urlOf imageValue = (case imageValue of None \<Rightarrow> None | Some img \<Rightarrow> getProp img (str ''url''))"

function extractImageFromJson :: "json \<Rightarrow> json option" where
  "extractImageFromJson data =
     (if \<not> truthy data then None
      else case getProp data (str ''image'') of
             Some (JString s) \<Rightarrow> Some (JString s)
           | Some (JArray (first # others)) \<Rightarrow>
               (case first of
                  JString s \<Rightarrow> Some first
                | _ \<Rightarrow> (if truthyResult (getProp first (str ''url'')) then getProp first (str ''url'') else None))
           | imageValue \<Rightarrow>
               (if truthyResult (urlOf imageValue) then urlOf imageValue
                else case graphItems data of
                       Some items \<Rightarrow>
                         (case List.find truthyResult (map extractImageFromJson items) of
                            Some img \<Rightarrow> img
                          | None \<Rightarrow> None)
                     | None \<Rightarrow> None))"
  by pat_completeness auto
termination
proof -
  have lookup: "map_of kvs k = Some v \<Longrightarrow> size v < Suc (size_list (size_prod (\<lambda>_. 0) size) kvs)"
    for kvs :: "(jsstring \<times> json) list" and k v
    by (induction kvs) (auto split: if_splits)
  have member: "z \<in> set items \<Longrightarrow> size z < Suc (size_list size items)"
    for z :: json and items
    by (induction items) auto
  have key: "size z < size data"
    if g: "graphItems data = Some items" and z: "z \<in> set items" for z data items
  proof -
    from g obtain kvs where d: "data = JObject kvs"
      and m: "map_of kvs (str ''@graph'') = Some (JArray items)"
      by (cases data) (auto simp: graphItems_def split: option.splits json.splits)
    from lookup [OF m] member [OF z] show ?thesis
      unfolding d by simp
  qed
  show ?thesis
    by (relation "measure size") (auto intro: key)
qed

subsection \<open>The request handler\<close>

definition quote :: cls where
  "quote = OneOf (str [CHR 0x22, CHR 0x27])"

definition notQuote :: cls where
  "notQuote = NoneOf (str [CHR 0x22, CHR 0x27])"

fun seqs :: "regex list \<Rightarrow> regex" where
  "seqs [] = Lit []"
| "seqs [r] = r"
| "seqs (r # rs) = Seq r (seqs rs)"

text \<open>The eight patterns of \<open>imagePatterns\<close>, in the order of the source: Open Graph (two
  attribute orders), Twitter (two attribute orders), the two marketplace patterns and the
  two lazy-loading attributes.\<close>

definition ogPropertyFirst :: regex where
  "ogPropertyFirst =
     seqs [Lit (str ''<meta''), Plus WhiteSpace, Lit (str ''property=''), One quote,
           Lit (str ''og:image''), One quote, Plus WhiteSpace, Lit (str ''content=''), One quote,
           Group (Plus notQuote), One quote]"

definition ogContentFirst :: regex where
  "ogContentFirst =
     seqs [Lit (str ''<meta''), Plus WhiteSpace, Lit (str ''content=''), One quote,
           Group (Plus notQuote), One quote, Plus WhiteSpace, Lit (str ''property=''), One quote,
           Lit (str ''og:image''), One quote]"

definition imagePatterns :: "regex list" where
  "imagePatterns =
     [ogPropertyFirst,
      ogContentFirst,
      seqs [Lit (str ''<meta''), Plus WhiteSpace, Lit (str ''name=''), One quote,
            Lit (str ''twitter:image''), One quote, Plus WhiteSpace, Lit (str ''content=''), One quote,
            Group (Plus notQuote), One quote],
      seqs [Lit (str ''<meta''), Plus WhiteSpace, Lit (str ''content=''), One quote,
            Group (Plus notQuote), One quote, Plus WhiteSpace, Lit (str ''name=''), One quote,
            Lit (str ''twitter:image''), One quote],
      seqs [Lit (str ''id=''), One quote, Lit (str ''landingImage''), One quote,
            Plus (NoneOf (str ''>'')), Lit (str ''src=''), One quote, Group (Plus notQuote), One quote],
      seqs [Lit (str ''id=''), One quote, Lit (str ''imgBlkFront''), One quote,
            Plus (NoneOf (str ''>'')), Lit (str ''src=''), One quote, Group (Plus notQuote), One quote],
      seqs [Lit (str ''data-old-hires=''), One quote, Group (Plus notQuote), One quote],
      seqs [Lit (str ''data-a-dynamic-image=''), One quote, Lit (str ''{''), One quote,
            Group (Plus notQuote), One quote]]"

definition jsonLdScript :: regex where
  "jsonLdScript =
     seqs [Lit (str ''<script''), Plus (NoneOf (str ''>'')), Lit (str ''type=''), One quote,
           Lit (str ''application/ld+json''), One quote, Star (NoneOf (str ''>'')), Lit (str ''>''),
           LazyStar AnyChar, Lit (str ''</script>'')]"

definition scriptTag :: regex where
  "scriptTag =
     seqs [Lit (str ''<''), Opt (Lit (str ''/'')), Lit (str ''script''), Star (NoneOf (str ''>'')),
           Lit (str ''>'')]"

text \<open>
  What the service gets from its platform: \<open>fetch\<close> (the address and the request headers
  give a response, or the promise rejects with a message), \<open>JSON.parse\<close> (\<open>None\<close> when it
  throws) and the origin of a URL (\<open>None\<close> when \<open>new URL\<close> throws). Of a response the service
  reads \<open>ok\<close>, \<open>status\<close>, the header \<open>content-type\<close> and the body, either as a string
  (\<open>text()\<close>) or as bytes (\<open>arrayBuffer()\<close>).
\<close>

record FetchResponse =
  resp_ok :: bool
  resp_status :: nat
  resp_text :: jsstring
  resp_arrayBuffer :: "char list"
  resp_contentType :: "jsstring option"

record Platform =
  fetch :: "jsstring \<Rightarrow> (jsstring \<times> jsstring) list \<Rightarrow> jsstring + FetchResponse"
  jsonParse :: "jsstring \<Rightarrow> json option"
  urlOrigin :: "jsstring \<Rightarrow> jsstring option"

text \<open>\<open>btoa\<close> of the binary string that the service builds from the bytes of the image, one
  character per byte: the base64 of the bytes.\<close>

definition b64char :: "nat \<Rightarrow> char" where
  "b64char n = ''ABCDEFGHIJKLMNOPQRSTUVWXYZabcdefghijklmnopqrstuvwxyz0123456789+/'' ! n"

fun b64 :: "nat list \<Rightarrow> string" where
  "b64 [] = []"
| "b64 [a] = [b64char (a div 4), b64char ((a mod 4) * 16), CHR ''='', CHR ''='']"
| "b64 [a, b] =
     [b64char (a div 4), b64char ((a mod 4) * 16 + b div 16), b64char ((b mod 16) * 4), CHR ''='']"
| "b64 (a # b # c # rest) =
     [b64char (a div 4), b64char ((a mod 4) * 16 + b div 16),
      b64char ((b mod 16) * 4 + c div 64), b64char (c mod 64)] @ b64 rest"

definition btoa :: "char list \<Rightarrow> jsstring" where
  "btoa bytes = str (b64 (map of_char bytes))"

text \<open>A number in a template string.\<close>

fun showNat :: "nat \<Rightarrow> string" where
  "showNat n =
     (if n < 10 then [''0123456789'' ! n]
      else showNat (n div 10) @ [''0123456789'' ! (n mod 10)])"

text \<open>The body of the loop over the patterns, after a match: \<open>Continue\<close> and \<open>Break\<close> are the
  two ways the iteration ends, \<open>Throw\<close> is an exception of \<open>new URL\<close>.\<close>

datatype step = Continue | Break jsstring | Throw

definition processCandidate :: "Platform \<Rightarrow> jsstring \<Rightarrow> jsstring \<Rightarrow> step" where
  "processCandidate pf url matched =
     (let candidateUrl = trim matched
      in if \<not> isValidImageUrl candidateUrl then Continue
         else
           (case (if startsWith candidateUrl (str ''//'') then Some (str ''https:'' @ candidateUrl)
                  else if startsWith candidateUrl (str ''/'') then
                    (case urlOrigin pf url of
                       None \<Rightarrow> None
                     | Some origin \<Rightarrow> Some (origin @ candidateUrl))
                  else Some candidateUrl) of
              None \<Rightarrow> Throw
            | Some resolved \<Rightarrow> if isValidImageUrl resolved then Break resolved else Continue))"

fun patternLoop :: "Platform \<Rightarrow> jsstring \<Rightarrow> jsstring \<Rightarrow> regex list \<Rightarrow> step" where
  "patternLoop pf url html [] = Continue"
| "patternLoop pf url html (pattern # rest) =
     (case matchGroup pattern html of
        None \<Rightarrow> patternLoop pf url html rest
      | Some group1 \<Rightarrow>
          (if group1 = [] then patternLoop pf url html rest
           else case processCandidate pf url group1 of
                  Continue \<Rightarrow> patternLoop pf url html rest
                | Break imageUrl \<Rightarrow> Break imageUrl
                | Throw \<Rightarrow> Throw))"

text \<open>The loop over the JSON-LD blocks: the first block that parses and whose image is a
  string accepted by \<open>isValidImageUrl\<close>.\<close>

fun jsonLdLoop :: "Platform \<Rightarrow> jsstring list \<Rightarrow> jsstring option" where
  "jsonLdLoop pf [] = None"
| "jsonLdLoop pf (jsonScript # rest) =
     (let jsonContent = removeAll scriptTag 0 jsonScript
      in case jsonParse pf jsonContent of
           None \<Rightarrow> jsonLdLoop pf rest
         | Some jsonData \<Rightarrow>
             (case extractImageFromJson jsonData of
                Some (JString extractedImage) \<Rightarrow>
                  (if extractedImage \<noteq> [] \<and> isValidImageUrl extractedImage
                   then Some extractedImage else jsonLdLoop pf rest)
              | _ \<Rightarrow> jsonLdLoop pf rest))"

definition pageHeaders :: "(jsstring \<times> jsstring) list" where
  "pageHeaders =
     [(str ''User-Agent'', str ''Mozilla/5.0 (Windows NT 10.0; Win64; x64) AppleWebKit/537.36 (KHTML, like Gecko) Chrome/120.0.0.0 Safari/537.36''),
      (str ''Accept'', str ''text/html,application/xhtml+xml,application/xml;q=0.9,image/webp,*/*;q=0.8'')]"

definition imageHeaders :: "jsstring \<Rightarrow> (jsstring \<times> jsstring) list" where
  "imageHeaders url =
     [(str ''User-Agent'', str ''Mozilla/5.0 (Windows NT 10.0; Win64; x64) AppleWebKit/537.36''),
      (str ''Accept'', str ''image/*''),
      (str ''Referer'', url)]"

text \<open>The inner \<open>try\<close> block: the image address found on the page, \<open>None\<close> when the block
  throws (the \<open>catch\<close> then keeps the original address).\<close>

definition extractFromPage :: "Platform \<Rightarrow> jsstring \<Rightarrow> jsstring option" where
  "extractFromPage pf url =
     (case fetch pf url pageHeaders of
        Inl message \<Rightarrow> None
      | Inr pageResponse \<Rightarrow>
          (if \<not> resp_ok pageResponse then None
           else
             (let html = resp_text pageResponse
              in case patternLoop pf url html imagePatterns of
                   Throw \<Rightarrow> None
                 | found \<Rightarrow>
                     (let imageUrl = (case found of Break candidate \<Rightarrow> candidate | _ \<Rightarrow> url)
                      in if imageUrl = url then
                           (case jsonLdLoop pf (matchAll jsonLdScript 0 html) of
                              Some extracted \<Rightarrow> Some extracted
                            | None \<Rightarrow> Some imageUrl)
                         else Some imageUrl))))"

record ExtractResponse =
  success :: bool
  image_base64 :: "jsstring option"
  error_message :: "jsstring option"

record HttpResponse =
  http_status :: nat
  http_body :: "ExtractResponse option"

text \<open>A request: its method and what \<open>req.json()\<close> gives, which is the field \<open>url\<close> of the
  body (\<open>None\<close> when there is none), or a rejection with a message.\<close>

record Request =
  req_method :: jsstring
  req_json :: "jsstring + jsstring option"

definition handler :: "Platform \<Rightarrow> Request \<Rightarrow> HttpResponse" where
  "handler pf req =
     (if req_method req = str ''OPTIONS'' then \<lparr>http_status = 200, http_body = None\<rparr>
      else case req_json req of
        Inl message \<Rightarrow>
          \<lparr>http_status = 500,
           http_body = Some \<lparr>success = False, image_base64 = None, error_message = Some message\<rparr>\<rparr>
      | Inr body \<Rightarrow>
          (case body of
             None \<Rightarrow>
               \<lparr>http_status = 400,
                http_body = Some \<lparr>success = False, image_base64 = None,
                                  error_message = Some (str ''URL is required'')\<rparr>\<rparr>
           | Some url \<Rightarrow>
               (if url = [] then
                  \<lparr>http_status = 400,
                   http_body = Some \<lparr>success = False, image_base64 = None,
                                     error_message = Some (str ''URL is required'')\<rparr>\<rparr>
                else
                  (let isDirectImage = test imageExtension url;
                       imageUrl = (if \<not> isDirectImage
                                   then (case extractFromPage pf url of None \<Rightarrow> url | Some found \<Rightarrow> found)
                                   else url)
                   in case fetch pf imageUrl (imageHeaders url) of
                        Inl message \<Rightarrow>
                          \<lparr>http_status = 500,
                           http_body = Some \<lparr>success = False, image_base64 = None,
                                             error_message = Some message\<rparr>\<rparr>
                      | Inr imageResponse \<Rightarrow>
                          (if \<not> resp_ok imageResponse then
                             \<lparr>http_status = 400,
                              http_body = Some \<lparr>success = False, image_base64 = None,
                                                error_message =
                                                  Some (str ''Failed to fetch image: ''
                                                          @ str (showNat (resp_status imageResponse)))\<rparr>\<rparr>
                           else
                             (let contentType =
                                    (case resp_contentType imageResponse of
                                       None \<Rightarrow> str ''image/jpeg''
                                     | Some declared \<Rightarrow>
                                         if declared = [] then str ''image/jpeg'' else declared);
                                  base64 = btoa (resp_arrayBuffer imageResponse);
                                  dataUrl = str ''data:'' @ contentType @ str '';base64,'' @ base64
                              in \<lparr>http_status = 200,
                                  http_body = Some \<lparr>success = True, image_base64 = Some dataUrl,
                                                    error_message = None\<rparr>\<rparr>))))))"


text \<open>Sample pages and platforms. The product page is
  \<open>https://shop.example.com/product/1\<close>; the platform serves a page at that address, a PNG
  image of three bytes at two image addresses, and nothing else. The sample pages are ASCII
  texts: the bytes of the body are the characters of the page.\<close>

definition page_url :: jsstring where
  "page_url = str ''https://shop.example.com/product/1''"

definition sample_platform :: "string \<Rightarrow> Platform" where
  "sample_platform html =
     \<lparr>fetch = (\<lambda>address headers.
         if address = page_url then
           Inr \<lparr>resp_ok = True, resp_status = 200, resp_text = str html, resp_arrayBuffer = html,
                resp_contentType = Some (str ''text/html'')\<rparr>
         else if address = str ''https://img.example.com/p.png''
                 \<or> address = str ''https://shop.example.com/images/p.png'' then
           Inr \<lparr>resp_ok = True, resp_status = 200, resp_text = str ''PNG'', resp_arrayBuffer = ''PNG'',
                resp_contentType = Some (str ''image/png'')\<rparr>
         else Inl (str ''network error'')),
      jsonParse = (\<lambda>text. None),
      urlOrigin = (\<lambda>address.
         if address = page_url then Some (str ''https://shop.example.com'') else None)\<rparr>"

definition post_request :: "jsstring \<Rightarrow> Request" where
  "post_request url = \<lparr>req_method = str ''POST'', req_json = Inr (Some url)\<rparr>"

text \<open>A page whose Open Graph image is the example of the specification.\<close>

definition og_page :: string where
  \<open>og_page = ''<html><head><meta property="og:image" content="https://img.example.com/p.png"></head></html>''\<close>

text \<open>A page whose Open Graph image is root-relative.\<close>

definition root_relative_page :: string where
  \<open>root_relative_page = ''<html><head><meta property="og:image" content="/images/p.png"></head></html>''\<close>

text \<open>A page with two Open Graph image tags: the address of the first has neither an image
  extension nor a known host, the second is the example of the specification.\<close>

definition two_tag_page :: string where
  \<open>two_tag_page = ''<head><meta property="og:image" content="https://shop.example.com/photo/1"><meta property="og:image" content="https://img.example.com/p.png"></head>''\<close>

text \<open>The address that the loop over the patterns selects for an accepted candidate: a
  protocol-relative one gets the scheme \<open>https:\<close>.\<close>

definition resolve :: "jsstring \<Rightarrow> jsstring" where
  "resolve c = (if startsWith c (str ''//'') then str ''https:'' @ c else c)"

text \<open>A pattern that the loop passes over: it does not match, or what it captures is empty
  or rejected by \<open>isValidImageUrl\<close>.\<close>

definition skipped :: "jsstring \<Rightarrow> regex \<Rightarrow> bool" where
  "skipped html pattern =
     (case matchGroup pattern html of
        None \<Rightarrow> True
      | Some group1 \<Rightarrow> group1 = [] \<or> \<not> isValidImageUrl (trim group1))"

text \<open>A page at \<open>https://cdn.example.com/item\<close> whose Open Graph image is its own address
  and which also has a JSON-LD block, with a platform that serves it and parses the block.\<close>

definition cdn_url :: jsstring where
  "cdn_url = str ''https://cdn.example.com/item''"

definition self_og_page :: string where
  \<open>self_og_page = ''<head><meta property="og:image" content="https://cdn.example.com/item"><script type="application/ld+json">{"image":"https://cdn.example.com/other.png"}</script></head>''\<close>

definition self_og_platform :: Platform where
  \<open>self_og_platform =
     \<lparr>fetch = (\<lambda>address headers.
         if address = cdn_url then
           Inr \<lparr>resp_ok = True, resp_status = 200, resp_text = str self_og_page,
                resp_arrayBuffer = self_og_page, resp_contentType = Some (str ''text/html'')\<rparr>
         else if address = str ''https://cdn.example.com/other.png'' then
           Inr \<lparr>resp_ok = True, resp_status = 200, resp_text = str ''PNG'', resp_arrayBuffer = ''PNG'',
                resp_contentType = Some (str ''image/png'')\<rparr>
         else Inl (str ''network error'')),
      jsonParse = (\<lambda>text.
         if text = str ''{"image":"https://cdn.example.com/other.png"}''
         then Some (JObject [(str ''image'', JString (str ''https://cdn.example.com/other.png''))])
         else None),
      urlOrigin = (\<lambda>address. None)\<rparr>\<close>

text \<open>Two pages with white space outside ASCII: a no-break space (\<open>U+00A0\<close>) between
  \<open><meta\<close> and \<open>property\<close> in the first of two Open Graph tags, and an address with a no-break
  space in front and \<open>U+FEFF\<close> behind.\<close>

definition nbsp :: codeunit where
  "nbsp = CodeUnit (CHR 0x00) (CHR 0xA0)"

definition nbsp_tag_page :: jsstring where
  \<open>nbsp_tag_page =
     str ''<meta'' @ [nbsp] @ str ''property="og:image" content="https://img.example.com/a.png">''
     @ str ''<meta content="https://img.example.com/b.png" property="og:image">''\<close>

definition nbsp_address_page :: jsstring where
  \<open>nbsp_address_page =
     str ''<meta property="og:image" content="'' @ [nbsp] @ str ''https://img.example.com/p.png''
     @ [CodeUnit (CHR 0xFE) (CHR 0xFF)] @ str ''">''\<close>

section \<open>Properties\<close>

subsection \<open>Cloth physics: what the relaxation and the integration keep\<close>

lemma keeps_pins_refl: "keeps_pins vs vs"
  by (simp add: keeps_pins_def)

lemma keeps_pins_trans: "keeps_pins vs vs' \<Longrightarrow> keeps_pins vs' vs'' \<Longrightarrow> keeps_pins vs vs''"
  by (simp add: keeps_pins_def)

lemma satisfyConstraint_keeps:
  "satisfyConstraint c vs = Inr vs' \<Longrightarrow> keeps_pins vs vs'"
  by (auto simp: satisfyConstraint_def Let_def keeps_pins_def nth_list_update split: if_splits)

lemma satisfyConstraint_returns:
  "vertexA c < length vs \<Longrightarrow> vertexB c < length vs \<Longrightarrow> \<exists>vs'. satisfyConstraint c vs = Inr vs'"
  by (simp add: satisfyConstraint_def Let_def)

lemma relaxPass_keeps:
  "relaxPass cs vs = Inr vs' \<Longrightarrow> keeps_pins vs vs'"
proof (induction cs arbitrary: vs)
  case Nil
  then show ?case by (simp add: keeps_pins_refl)
next
  case (Cons c cs)
  then show ?case
    by (auto split: sum.splits intro: keeps_pins_trans dest: satisfyConstraint_keeps)
qed

lemma relaxPass_returns:
  "list_all (\<lambda>c. vertexA c < length vs \<and> vertexB c < length vs) cs
     \<Longrightarrow> \<exists>vs'. relaxPass cs vs = Inr vs'"
proof (induction cs arbitrary: vs)
  case Nil
  then show ?case by simp
next
  case (Cons c cs)
  then obtain vs1 where s1: "satisfyConstraint c vs = Inr vs1"
    using satisfyConstraint_returns by fastforce
  then have "length vs1 = length vs"
    using satisfyConstraint_keeps keeps_pins_def by blast
  with Cons s1 show ?case by simp
qed

lemma relaxIter_keeps:
  "relaxIter n cs vs = Inr vs' \<Longrightarrow> keeps_pins vs vs'"
proof (induction n arbitrary: vs)
  case 0
  then show ?case by (simp add: keeps_pins_refl)
next
  case (Suc n)
  then show ?case
    by (auto split: sum.splits intro: keeps_pins_trans dest: relaxPass_keeps)
qed

lemma relaxIter_returns:
  "list_all (\<lambda>c. vertexA c < length vs \<and> vertexB c < length vs) cs
     \<Longrightarrow> \<exists>vs'. relaxIter n cs vs = Inr vs'"
proof (induction n arbitrary: vs)
  case 0
  then show ?case by simp
next
  case (Suc n)
  then obtain vs1 where s1: "relaxPass cs vs = Inr vs1"
    using relaxPass_returns by blast
  then have "length vs1 = length vs"
    using relaxPass_keeps keeps_pins_def by blast
  with Suc s1 show ?case by simp
qed

lemma integrateVertex_pinned [simp]: "pinned (integrateVertex v) = pinned v"
  by (simp add: integrateVertex_def Let_def)

lemma integrateVertex_mass [simp]: "mass (integrateVertex v) = mass v"
  by (simp add: integrateVertex_def Let_def)

lemma integrateVertex_fixed: "pinned v \<Longrightarrow> integrateVertex v = v"
  by (simp add: integrateVertex_def)

lemma update_returns:
  "constraints_ok s \<Longrightarrow> \<exists>s'. update dt s = Inr s'"
proof -
  assume "constraints_ok s"
  then have "list_all (\<lambda>c. vertexA c < length (map integrateVertex (vertices s))
                         \<and> vertexB c < length (map integrateVertex (vertices s))) (constraints s)"
    by (simp add: constraints_ok_def)
  then obtain vs where "relaxIter 3 (constraints s) (map integrateVertex (vertices s)) = Inr vs"
    using relaxIter_returns by blast
  then show ?thesis by (simp add: update_def)
qed

lemma update_frame:
  assumes "update dt s = Inr s'"
  shows "constraints s' = constraints s"
    and "length (vertices s') = length (vertices s)"
    and "j < length (vertices s) \<Longrightarrow> pinned (vertices s' ! j) = pinned (vertices s ! j)"
    and "j < length (vertices s) \<Longrightarrow> mass (vertices s' ! j) = mass (vertices s ! j)"
    and "j < length (vertices s) \<Longrightarrow> pinned (vertices s ! j)
           \<Longrightarrow> vertices s' ! j = vertices s ! j"
proof -
  from assms obtain vs where
    r: "relaxIter 3 (constraints s) (map integrateVertex (vertices s)) = Inr vs"
    and s': "s' = s\<lparr>vertices := vs\<rparr>"
    by (auto simp: update_def split: sum.splits)
  have k: "keeps_pins (map integrateVertex (vertices s)) vs"
    using r by (rule relaxIter_keeps)
  show "constraints s' = constraints s" using s' by simp
  show "length (vertices s') = length (vertices s)"
    using k s' by (simp add: keeps_pins_def)
  show "j < length (vertices s) \<Longrightarrow> pinned (vertices s' ! j) = pinned (vertices s ! j)"
    using k s' by (simp add: keeps_pins_def)
  show "j < length (vertices s) \<Longrightarrow> mass (vertices s' ! j) = mass (vertices s ! j)"
    using k s' by (simp add: keeps_pins_def)
  show "j < length (vertices s) \<Longrightarrow> pinned (vertices s ! j)
           \<Longrightarrow> vertices s' ! j = vertices s ! j"
  proof -
    assume j: "j < length (vertices s)" and p: "pinned (vertices s ! j)"
    have "position (vs ! j) = position (vertices s ! j)"
      "previousPosition (vs ! j) = previousPosition (vertices s ! j)"
      "velocity (vs ! j) = velocity (vertices s ! j)"
      "mass (vs ! j) = mass (vertices s ! j)"
      "pinned (vs ! j) = pinned (vertices s ! j)"
      using k j p by (simp_all add: keeps_pins_def integrateVertex_fixed)
    then show ?thesis using s' by (simp add: ClothVertex.equality)
  qed
qed

lemma update_constraints_ok:
  "constraints_ok s \<Longrightarrow> update dt s = Inr s' \<Longrightarrow> constraints_ok s'"
  using update_frame(1,2) [of dt s s'] by (simp add: constraints_ok_def)

lemma updates_pinned:
  "constraints_ok s \<Longrightarrow> i < length (vertices s) \<Longrightarrow> pinned (vertices s ! i) \<Longrightarrow>
     \<exists>s'. updates n s = Inr s' \<and> length (vertices s') = length (vertices s)
          \<and> vertices s' ! i = vertices s ! i"
proof (induction n arbitrary: s)
  case 0
  then show ?case by simp
next
  case (Suc n)
  from Suc.prems(1) obtain s1 where u: "update (1 / 60) s = Inr s1"
    using update_returns by blast
  have ok1: "constraints_ok s1" using Suc.prems(1) u by (rule update_constraints_ok)
  have len: "length (vertices s1) = length (vertices s)" using u by (rule update_frame(2))
  have same: "vertices s1 ! i = vertices s ! i"
    using update_frame(5) [OF u] Suc.prems by simp
  from Suc.IH [OF ok1] len same Suc.prems
  obtain s' where "updates n s1 = Inr s'" "length (vertices s') = length (vertices s1)"
      "vertices s' ! i = vertices s1 ! i"
    by auto
  with u len same show ?case by simp
qed

lemma pinVertex_constraints_ok: "constraints_ok s \<Longrightarrow> constraints_ok (pinVertex i p s)"
  by (simp add: constraints_ok_def pinVertex_def)

lemma addEdge_inv:
  assumes "addEdge a b st = Inr st'" and "edges_ok (vertices (fst st)) (constraints (fst st))"
  shows "vertices (fst st') = vertices (fst st)"
    and "edges_ok (vertices (fst st)) (constraints (fst st'))"
  using assms by (auto simp: addEdge_def Let_def edges_ok_def split: if_splits)

lemma addTriangles_inv:
  "addTriangles idx st = Inr st' \<Longrightarrow> edges_ok (vertices (fst st)) (constraints (fst st)) \<Longrightarrow>
   vertices (fst st') = vertices (fst st) \<and> edges_ok (vertices (fst st)) (constraints (fst st'))"
proof (induction idx st arbitrary: st' rule: addTriangles.induct)
  case (2 a b c rest st)
  from "2.prems"(1) obtain st1 st2 st3 where
    e1: "addEdge a b st = Inr st1" and e2: "addEdge b c st1 = Inr st2"
    and e3: "addEdge c a st2 = Inr st3" and r: "addTriangles rest st3 = Inr st'"
    by (auto split: sum.splits)
  have v1: "vertices (fst st1) = vertices (fst st)"
    and o1: "edges_ok (vertices (fst st1)) (constraints (fst st1))"
    using addEdge_inv [OF e1 "2.prems"(2)] by simp_all
  have v2: "vertices (fst st2) = vertices (fst st1)"
    and o2: "edges_ok (vertices (fst st2)) (constraints (fst st2))"
    using addEdge_inv [OF e2 o1] by simp_all
  have v3: "vertices (fst st3) = vertices (fst st2)"
    and o3: "edges_ok (vertices (fst st3)) (constraints (fst st3))"
    using addEdge_inv [OF e3 o2] by simp_all
  from "2.IH" [OF e1 e2 e3 r o3] v1 v2 v3
  show ?case by simp
qed simp_all

lemma initializeFromGeometry_ok:
  assumes "initializeFromGeometry g = Inr s"
  shows "vertices s = createVertices g \<and> edges_ok (vertices s) (constraints s)"
proof (cases "indexArray g")
  case None
  with assms show ?thesis by (auto simp: initializeFromGeometry_def edges_ok_def)
next
  case (Some idx)
  with assms obtain st where
    t: "addTriangles idx (\<lparr>vertices = createVertices g, constraints = []\<rparr>, {}) = Inr st"
    and s: "s = fst st"
    by (auto simp: initializeFromGeometry_def split: sum.splits)
  have "edges_ok (vertices (fst (\<lparr>vertices = createVertices g, constraints = []\<rparr>, {}::(nat \<times> nat) set)))
          (constraints (fst (\<lparr>vertices = createVertices g, constraints = []\<rparr>, {}::(nat \<times> nat) set)))"
    by (simp add: edges_ok_def)
  from addTriangles_inv [OF t this] s show ?thesis by simp
qed

lemma edges_ok_constraints_ok: "edges_ok (vertices s) (constraints s) \<Longrightarrow> constraints_ok s"
  by (simp add: edges_ok_def constraints_ok_def list_all_iff)

lemma relaxPass_foldl:
  "relaxPass cs vs =
     foldl (\<lambda>r c. case r of Inl e \<Rightarrow> Inl e | Inr v \<Rightarrow> satisfyConstraint c v) (Inr vs) cs"
proof (induction cs arbitrary: vs)
  case Nil
  then show ?case by simp
next
  case (Cons c cs)
  have stuck: "foldl (\<lambda>r c. case r of Inl e \<Rightarrow> Inl e | Inr v \<Rightarrow> satisfyConstraint c v) (Inl e) cs = Inl e"
    for e cs by (induction cs) simp_all
  show ?case
    by (cases "satisfyConstraint c vs") (simp_all add: Cons.IH stuck)
qed

lemma update_three_passes:
  "update dt s =
     (case relaxPass (constraints s) (map integrateVertex (vertices s)) of Inl e \<Rightarrow> Inl e | Inr vs1 \<Rightarrow>
      case relaxPass (constraints s) vs1 of Inl e \<Rightarrow> Inl e | Inr vs2 \<Rightarrow>
      case relaxPass (constraints s) vs2 of Inl e \<Rightarrow> Inl e | Inr vs3 \<Rightarrow>
        Inr (s\<lparr>vertices := vs3\<rparr>))"
  by (simp add: update_def numeral_3_eq_3 split: sum.splits)

lemma vlength_zero_same: "vlength (subVectors p p) = 0"
  by (simp add: vlength_def subVectors_def)

lemma satisfyConstraint_dead_zone:
  assumes "vertexA c < length vs" and "vertexB c < length vs"
    and "\<not> (vlength (subVectors (position (vs ! vertexB c)) (position (vs ! vertexA c))) > restLength c * 1.1
           \<or> vlength (subVectors (position (vs ! vertexB c)) (position (vs ! vertexA c))) < restLength c * 0.9)"
  shows "satisfyConstraint c vs = Inr vs"
  using assms by (simp add: satisfyConstraint_def Let_def maxStretch_def)

lemma list_update_other_id: "i \<noteq> j \<Longrightarrow> xs[j := y, i := xs ! i] = xs[j := y]"
  by (metis list_update_id nth_list_update_neq)

lemma satisfyConstraint_correct:
  fixes c vs
  defines "a \<equiv> vertexA c" and "b \<equiv> vertexB c"
  defines "diff \<equiv> subVectors (position (vs ! b)) (position (vs ! a))"
  defines "d \<equiv> vlength diff"
  defines "move \<equiv> multiplyScalar (multiplyScalar diff (1 / d)) ((d - restLength c) * 0.5 * stiffness c)"
  assumes "a < length vs" and "b < length vs"
    and "d > restLength c * 1.1 \<or> d < restLength c * 0.9" and "d \<noteq> 0"
  shows "satisfyConstraint c vs =
           Inr (vs[a := (if pinned (vs ! a) then vs ! a
                         else (vs ! a)\<lparr>position := addVectors (position (vs ! a)) move\<rparr>),
                   b := (if pinned (vs ! b) then vs ! b
                         else (vs ! b)\<lparr>position := subVectors (position (vs ! b)) move\<rparr>)])"
proof -
  have ab: "a \<noteq> b"
    using assms(9) unfolding d_def diff_def by (auto simp: vlength_zero_same)
  have corr: "multiplyScalar diff ((d - restLength c) / d * 0.5 * stiffness c) = move"
    unfolding move_def by (simp add: multiplyScalar_def)
  show ?thesis
    using assms(6-8) ab corr
    unfolding satisfyConstraint_def a_def [symmetric] b_def [symmetric] Let_def
      diff_def [symmetric] d_def [symmetric]
    by (simp add: maxStretch_def list_update_other_id)
qed

lemma createVertices_triangle:
  "createVertices triangle_geometry =
     [newVertex (Vector3 0 0 0), newVertex (Vector3 3 0 0), newVertex (Vector3 0 4 0)]"
  by (simp add: createVertices_def triangle_geometry_def positionCount_def upt_rec)

lemma initialize_triangle: "initializeFromGeometry triangle_geometry = Inr triangle_cloth"
proof -
  have idx: "indexArray triangle_geometry = Some [0, 1, 2]"
    by (simp add: triangle_geometry_def)
  show ?thesis
    unfolding initializeFromGeometry_def Let_def idx createVertices_triangle
    by (simp add: addEdge_def Let_def newVertex_def distanceTo_def triangle_cloth_def)
qed

lemma initialize_single: "initializeFromGeometry single_geometry = Inr single_cloth"
  by (simp add: initializeFromGeometry_def single_geometry_def single_cloth_def createVertices_def
      positionCount_def)

lemma triangle_cloth_ok: "constraints_ok triangle_cloth"
  by (simp add: constraints_ok_def triangle_cloth_def)

lemma multiplyScalar_zero_iff:
  "k \<noteq> 0 \<Longrightarrow> multiplyScalar (subVectors p q) k = Vector3 0 0 0 \<longleftrightarrow> q = p"
  by (cases p; cases q) (auto simp: multiplyScalar_def subVectors_def)

lemma unpinVertex_next_update:
  assumes "i < length (vertices s)"
  shows "constraints (unpinVertex i s) = constraints s
       \<and> length (vertices (unpinVertex i s)) = length (vertices s)
       \<and> (\<forall>j. j \<noteq> i \<longrightarrow> vertices (unpinVertex i s) ! j = vertices s ! j)
       \<and> vertices (unpinVertex i s) ! i = (vertices s ! i)\<lparr>pinned := False\<rparr>
       \<and> position (integrateVertex (vertices (unpinVertex i s) ! i)) =
           addVectors (addVectors (position (vertices s ! i))
              (multiplyScalar (subVectors (position (vertices s ! i)) (previousPosition (vertices s ! i))) 0.98))
              (Vector3 0 (- 0.0005) 0)
       \<and> (\<forall>dt s'. update dt (unpinVertex i s) = Inr s' \<longrightarrow>
             previousPosition (vertices s' ! i) = position (vertices s ! i)
           \<and> velocity (vertices s' ! i) =
               multiplyScalar (subVectors (position (vertices s ! i)) (previousPosition (vertices s ! i))) 0.98
           \<and> (velocity (vertices s' ! i) = Vector3 0 0 0
                \<longleftrightarrow> previousPosition (vertices s ! i) = position (vertices s ! i)))"
proof -
  have at_i: "vertices (unpinVertex i s) ! i = (vertices s ! i)\<lparr>pinned := False\<rparr>"
    and len: "length (vertices (unpinVertex i s)) = length (vertices s)"
    using assms by (simp_all add: unpinVertex_def)
  have others: "\<forall>j. j \<noteq> i \<longrightarrow> vertices (unpinVertex i s) ! j = vertices s ! j"
    by (simp add: unpinVertex_def)
  have cs: "constraints (unpinVertex i s) = constraints s"
    by (simp add: unpinVertex_def)
  have pos: "position (integrateVertex (vertices (unpinVertex i s) ! i)) =
           addVectors (addVectors (position (vertices s ! i))
              (multiplyScalar (subVectors (position (vertices s ! i)) (previousPosition (vertices s ! i))) 0.98))
              (Vector3 0 (- 0.0005) 0)"
    by (simp add: at_i integrateVertex_def Let_def damping_def gravity_def)
  have next_update: "previousPosition (vertices s' ! i) = position (vertices s ! i)
           \<and> velocity (vertices s' ! i) =
               multiplyScalar (subVectors (position (vertices s ! i)) (previousPosition (vertices s ! i))) 0.98
           \<and> (velocity (vertices s' ! i) = Vector3 0 0 0
                \<longleftrightarrow> previousPosition (vertices s ! i) = position (vertices s ! i))"
    if u: "update dt (unpinVertex i s) = Inr s'" for dt s'
  proof -
    from u obtain vs where
      r: "relaxIter 3 (constraints (unpinVertex i s)) (map integrateVertex (vertices (unpinVertex i s))) = Inr vs"
      and s': "s' = (unpinVertex i s)\<lparr>vertices := vs\<rparr>"
      by (auto simp: update_def split: sum.splits)
    have k: "keeps_pins (map integrateVertex (vertices (unpinVertex i s))) vs"
      using r by (rule relaxIter_keeps)
    have "velocity (vertices s' ! i) = velocity (integrateVertex (vertices (unpinVertex i s) ! i))"
      and "previousPosition (vertices s' ! i) = previousPosition (integrateVertex (vertices (unpinVertex i s) ! i))"
      using k assms len s' by (simp_all add: keeps_pins_def)
    then show ?thesis
      by (simp add: at_i integrateVertex_def Let_def damping_def multiplyScalar_zero_iff)
  qed
  from cs len others at_i pos next_update show ?thesis by blast
qed

lemma pinVertex_at:
  "i < length (vertices s) \<Longrightarrow>
     vertices (pinVertex i p s) ! i = (vertices s ! i)\<lparr>pinned := True, position := p\<rparr>"
  by (simp add: pinVertex_def)

lemma pinVertex_others:
  "constraints (pinVertex i p s) = constraints s
   \<and> length (vertices (pinVertex i p s)) = length (vertices s)
   \<and> (\<forall>j. j \<noteq> i \<longrightarrow> vertices (pinVertex i p s) ! j = vertices s ! j)"
  by (simp add: pinVertex_def)

lemma updates_keep_pinned:
  "updates n s = Inr s' \<Longrightarrow> i < length (vertices s) \<Longrightarrow> pinned (vertices s ! i) \<Longrightarrow>
     length (vertices s') = length (vertices s) \<and> vertices s' ! i = vertices s ! i"
proof (induction n arbitrary: s)
  case 0
  then show ?case by simp
next
  case (Suc n)
  from Suc.prems(1) obtain s1 where u: "update (1 / 60) s = Inr s1" and r: "updates n s1 = Inr s'"
    by (auto split: sum.splits)
  have len: "length (vertices s1) = length (vertices s)" using u by (rule update_frame(2))
  have same: "vertices s1 ! i = vertices s ! i"
    using update_frame(5) [OF u Suc.prems(2,3)] .
  from Suc.IH [OF r] len same Suc.prems(2,3) show ?case by simp
qed

lemma updates_constraints_ok:
  "constraints_ok s \<Longrightarrow> updates n s = Inr s' \<Longrightarrow> constraints_ok s'"
proof (induction n arbitrary: s)
  case 0
  then show ?case by simp
next
  case (Suc n)
  from Suc.prems(2) obtain s1 where u: "update (1 / 60) s = Inr s1" and r: "updates n s1 = Inr s'"
    by (auto split: sum.splits)
  from Suc.IH [OF update_constraints_ok [OF Suc.prems(1) u] r] show ?case .
qed

lemma unpinVertex_constraints_ok: "constraints_ok s \<Longrightarrow> constraints_ok (unpinVertex i s)"
  by (simp add: constraints_ok_def unpinVertex_def)

subsection \<open>C1: a pinned vertex stays where it was pinned\<close>

text \<open>
  Claim C1. In a cloth state whose constraints join existing vertices (every state the
  constructor builds), for a vertex index \<open>i\<close> in range: after \<open>pinVertex i p\<close>, any number
  \<open>n\<close> of calls of \<open>update\<close> returns, and in the resulting state vertex \<open>i\<close> is still pinned
  and its position is exactly \<open>p\<close>.
\<close>

theorem pinned_vertex_stays:
  assumes "constraints_ok s" and "i < length (vertices s)"
  shows "\<exists>s'. updates n (pinVertex i p s) = Inr s'
            \<and> i < length (vertices s')
            \<and> pinned (vertices s' ! i)
            \<and> position (vertices s' ! i) = p"
proof -
  let ?s = "pinVertex i p s"
  have ok: "constraints_ok ?s" using assms(1) by (rule pinVertex_constraints_ok)
  have i: "i < length (vertices ?s)" using assms(2) by (simp add: pinVertex_def)
  have v: "pinned (vertices ?s ! i)" "position (vertices ?s ! i) = p"
    using assms(2) by (simp_all add: pinVertex_def)
  from updates_pinned [OF ok i v(1), of n] obtain s' where
    "updates n ?s = Inr s'" "length (vertices s') = length (vertices ?s)"
    "vertices s' ! i = vertices ?s ! i" by blast
  with i v show ?thesis by simp
qed

text \<open>The theorem at the triangle cloth, vertex 1 pinned to \<open>(2, 7, 1)\<close>, five updates.\<close>

theorem pinned_vertex_stays_witness:
  "constraints_ok triangle_cloth \<and> (1::nat) < length (vertices triangle_cloth) \<and>
   (\<exists>s'. updates 5 (pinVertex 1 (Vector3 2 7 1) triangle_cloth) = Inr s'
            \<and> 1 < length (vertices s')
            \<and> pinned (vertices s' ! 1)
            \<and> position (vertices s' ! 1) = Vector3 2 7 1)"
proof -
  have l: "(1::nat) < length (vertices triangle_cloth)" by (simp add: triangle_cloth_def)
  show ?thesis
    using pinned_vertex_stays [OF triangle_cloth_ok l, of 5 "Vector3 2 7 1"] triangle_cloth_ok l
    by simp
qed

subsection \<open>C2: three relaxation passes and the correction of one constraint\<close>

text \<open>
  One call of \<open>update\<close> is the integration followed by exactly three passes over the
  constraint list, each pass treating the constraints from the first to the last. For a
  constraint \<open>c\<close> of stiffness \<open>0.5\<close> between existing vertices, with \<open>d\<close> the current
  distance of its endpoints: inside the dead zone (\<open>d\<close> neither above 110% nor below 90% of
  the rest length) nothing changes; outside it, and when \<open>d\<close> is not zero, endpoint A, if not
  pinned, is moved by the unit separation vector times \<open>(d - restLength) * 0.5 * 0.5\<close>, endpoint
  B, if not pinned, by the opposite vector, and pinned endpoints and all other vertices keep
  their values.
\<close>

lemma update_relaxation_nonzero:
  assumes "vertexA c < length vs" and "vertexB c < length vs" and "stiffness c = 0.5"
  shows "update dt s =
           (case relaxPass (constraints s) (map integrateVertex (vertices s)) of Inl e \<Rightarrow> Inl e | Inr vs1 \<Rightarrow>
            case relaxPass (constraints s) vs1 of Inl e \<Rightarrow> Inl e | Inr vs2 \<Rightarrow>
            case relaxPass (constraints s) vs2 of Inl e \<Rightarrow> Inl e | Inr vs3 \<Rightarrow>
              Inr (s\<lparr>vertices := vs3\<rparr>))
       \<and> relaxPass cs vs =
           foldl (\<lambda>r c. case r of Inl e \<Rightarrow> Inl e | Inr v \<Rightarrow> satisfyConstraint c v) (Inr vs) cs
       \<and> (let a = vertexA c; b = vertexB c;
               diff = subVectors (position (vs ! b)) (position (vs ! a));
               d = vlength diff;
               move = multiplyScalar (multiplyScalar diff (1 / d)) ((d - restLength c) * 0.5 * 0.5)
           in (\<not> (d > restLength c * 1.1 \<or> d < restLength c * 0.9) \<longrightarrow>
                 satisfyConstraint c vs = Inr vs)
            \<and> ((d > restLength c * 1.1 \<or> d < restLength c * 0.9) \<and> d \<noteq> 0 \<longrightarrow>
                 satisfyConstraint c vs =
                   Inr (vs[a := (if pinned (vs ! a) then vs ! a
                                 else (vs ! a)\<lparr>position := addVectors (position (vs ! a)) move\<rparr>),
                           b := (if pinned (vs ! b) then vs ! b
                                 else (vs ! b)\<lparr>position := subVectors (position (vs ! b)) move\<rparr>)])))"
proof -
  have dead: "\<not> (vlength (subVectors (position (vs ! vertexB c)) (position (vs ! vertexA c))) > restLength c * 1.1
           \<or> vlength (subVectors (position (vs ! vertexB c)) (position (vs ! vertexA c))) < restLength c * 0.9)
       \<Longrightarrow> satisfyConstraint c vs = Inr vs"
    using satisfyConstraint_dead_zone [OF assms(1,2)] by simp
  note corr = satisfyConstraint_correct [OF assms(1,2), unfolded assms(3)]
  show ?thesis
    unfolding Let_def
    using update_three_passes [of dt s] relaxPass_foldl [of cs vs] dead corr
    by simp
qed

text \<open>The lemma at a pair of vertices at distance 5, the second one pinned: with rest
  length 4 the free endpoint moves by \<open>(0.15, 0.2, 0)\<close>; with rest length 5 nothing moves.\<close>

lemma update_relaxation_nonzero_example:
  "satisfyConstraint \<lparr>vertexA = 0, vertexB = 1, restLength = 4, stiffness = 0.5\<rparr> stretched_pair =
     Inr [(newVertex (Vector3 0 0 0))\<lparr>position := Vector3 0.15 0.2 0\<rparr>,
          (newVertex (Vector3 3 4 0))\<lparr>pinned := True\<rparr>]
   \<and> satisfyConstraint \<lparr>vertexA = 0, vertexB = 1, restLength = 5, stiffness = 0.5\<rparr> stretched_pair =
     Inr stretched_pair"
proof -
  let ?c = "\<lparr>vertexA = 0, vertexB = 1, restLength = 4, stiffness = 0.5\<rparr>"
  let ?c' = "\<lparr>vertexA = 0, vertexB = 1, restLength = 5, stiffness = 0.5\<rparr>"
  have d: "vlength (subVectors (position (stretched_pair ! 1)) (position (stretched_pair ! 0))) = 5"
    by (simp add: stretched_pair_def newVertex_def subVectors_def vlength_def)
  have h: "vertexA ?c < length stretched_pair" "vertexB ?c < length stretched_pair" "stiffness ?c = 0.5"
    "vertexA ?c' < length stretched_pair" "vertexB ?c' < length stretched_pair" "stiffness ?c' = 0.5"
    by (simp_all add: stretched_pair_def)
  have 1: "satisfyConstraint ?c stretched_pair =
     Inr [(newVertex (Vector3 0 0 0))\<lparr>position := Vector3 0.15 0.2 0\<rparr>,
          (newVertex (Vector3 3 4 0))\<lparr>pinned := True\<rparr>]"
    using update_relaxation_nonzero [OF h(1,2,3), of 0 single_cloth "[]"] d
    by (simp add: Let_def) (simp add: stretched_pair_def newVertex_def subVectors_def
        multiplyScalar_def addVectors_def)
  have 2: "satisfyConstraint ?c' stretched_pair = Inr stretched_pair"
    using update_relaxation_nonzero [OF h(4,5,6), of 0 single_cloth "[]"] d
    by (simp add: Let_def)
  from 1 2 show ?thesis by simp
qed

text \<open>
  Claim C2 says that a constraint whose current length is above 110% or below 90% of its rest
  length is corrected by moving each non-pinned endpoint along the separation vector by half
  the length error scaled by the stiffness. The program does not do so when the two endpoints
  coincide. Take the cloth that the constructor builds from the triangle geometry and pin
  vertex 0 to \<open>(3, -0.0005, 0)\<close>. The integration phase of \<open>update\<close> moves the free vertex 1
  from \<open>(3, 0, 0)\<close> to exactly that point. The first constraint of the list joins vertex 0 (A)
  and vertex 1 (B) with rest length 3: its separation vector is the zero vector, its current
  length \<open>0\<close> is below 90% of the rest length, and endpoint B is not pinned. So the correcting
  branch is taken and its quotient \<open>(distance - restLength) / distance\<close> has the divisor zero.
  In the program the quotient is \<open>-Infinity\<close>, the zero vector scaled by it is \<open>NaN\<close> in every
  coordinate, and \<open>NaN\<close> is written to the position of vertex 1, where the claim has a move
  of length \<open>0.75\<close> along the separation vector. The statement below does not use the value
  of a quotient.
\<close>

theorem zero_length_constraint_divides_by_zero:
  "initializeFromGeometry triangle_geometry = Inr triangle_cloth
   \<and> map integrateVertex (vertices coincident_cloth) =
       [\<lparr>position = Vector3 3 (- 0.0005) 0, previousPosition = Vector3 0 0 0,
         velocity = Vector3 0 0 0, pinned = True, mass = 1\<rparr>,
        \<lparr>position = Vector3 3 (- 0.0005) 0, previousPosition = Vector3 3 0 0,
         velocity = Vector3 0 0 0, pinned = False, mass = 1\<rparr>,
        \<lparr>position = Vector3 0 3.9995 0, previousPosition = Vector3 0 4 0,
         velocity = Vector3 0 0 0, pinned = False, mass = 1\<rparr>]
   \<and> constraints coincident_cloth ! 0 = \<lparr>vertexA = 0, vertexB = 1, restLength = 3, stiffness = 0.5\<rparr>
   \<and> subVectors (position (map integrateVertex (vertices coincident_cloth) ! 1))
                 (position (map integrateVertex (vertices coincident_cloth) ! 0)) = Vector3 0 0 0
   \<and> vlength (subVectors (position (map integrateVertex (vertices coincident_cloth) ! 1))
                         (position (map integrateVertex (vertices coincident_cloth) ! 0))) = 0
   \<and> vlength (subVectors (position (map integrateVertex (vertices coincident_cloth) ! 1))
                         (position (map integrateVertex (vertices coincident_cloth) ! 0)))
       < restLength (constraints coincident_cloth ! 0) * 0.9
   \<and> \<not> pinned (map integrateVertex (vertices coincident_cloth) ! 1)"
proof -
  have vs: "map integrateVertex (vertices coincident_cloth) =
       [\<lparr>position = Vector3 3 (- 0.0005) 0, previousPosition = Vector3 0 0 0,
         velocity = Vector3 0 0 0, pinned = True, mass = 1\<rparr>,
        \<lparr>position = Vector3 3 (- 0.0005) 0, previousPosition = Vector3 3 0 0,
         velocity = Vector3 0 0 0, pinned = False, mass = 1\<rparr>,
        \<lparr>position = Vector3 0 3.9995 0, previousPosition = Vector3 0 4 0,
         velocity = Vector3 0 0 0, pinned = False, mass = 1\<rparr>]"
    by (simp add: coincident_cloth_def pinVertex_def triangle_cloth_def newVertex_def
        integrateVertex_def Let_def damping_def gravity_def subVectors_def multiplyScalar_def
        addVectors_def)
  have c: "constraints coincident_cloth ! 0 =
      \<lparr>vertexA = 0, vertexB = 1, restLength = 3, stiffness = 0.5\<rparr>"
    by (simp add: coincident_cloth_def pinVertex_def triangle_cloth_def)
  show ?thesis
    unfolding vs c
    by (simp add: initialize_triangle subVectors_def vlength_def)
qed

subsection \<open>C3: the integration phase\<close>




subsection \<open>C10: what unpinVertex changes\<close>

text \<open>
  Claim C10, amended. For a vertex index \<open>i\<close> in range, \<open>unpinVertex i\<close> changes only the
  pinned flag of vertex \<open>i\<close>: its position, previousPosition, velocity and mass, every other
  vertex and the constraints are kept. On the next \<open>update\<close> the vertex is integrated from
  exactly that position, with velocity \<open>(position - previousPosition) * 0.98\<close>: the velocity
  is zero exactly when previousPosition equals the position. previousPosition is the value the
  vertex held before it was pinned: \<open>pinVertex i p\<close> sets the pinned flag and the position
  \<open>p\<close> of vertex \<open>i\<close> and keeps its previousPosition, and so does any number of updates
  while the vertex is pinned. So after \<open>pinVertex i p\<close>, any number of updates and
  \<open>unpinVertex i\<close>, the next update gives the vertex the velocity
  \<open>(p - previousPosition) * 0.98\<close> for the previousPosition it had before the pin, which is
  zero exactly when that previousPosition is \<open>p\<close>.
\<close>

theorem unpinVertex_frame:
  assumes "i < length (vertices s)"
  shows "constraints (unpinVertex i s) = constraints s
       \<and> length (vertices (unpinVertex i s)) = length (vertices s)
       \<and> (\<forall>j. j \<noteq> i \<longrightarrow> vertices (unpinVertex i s) ! j = vertices s ! j)
       \<and> vertices (unpinVertex i s) ! i = (vertices s ! i)\<lparr>pinned := False\<rparr>
       \<and> position (integrateVertex (vertices (unpinVertex i s) ! i)) =
           addVectors (addVectors (position (vertices s ! i))
              (multiplyScalar (subVectors (position (vertices s ! i)) (previousPosition (vertices s ! i))) 0.98))
              (Vector3 0 (- 0.0005) 0)
       \<and> (\<forall>dt s'. update dt (unpinVertex i s) = Inr s' \<longrightarrow>
             previousPosition (vertices s' ! i) = position (vertices s ! i)
           \<and> velocity (vertices s' ! i) =
               multiplyScalar (subVectors (position (vertices s ! i)) (previousPosition (vertices s ! i))) 0.98
           \<and> (velocity (vertices s' ! i) = Vector3 0 0 0
                \<longleftrightarrow> previousPosition (vertices s ! i) = position (vertices s ! i)))
       \<and> vertices (pinVertex i p s) ! i = (vertices s ! i)\<lparr>pinned := True, position := p\<rparr>
       \<and> previousPosition (vertices (pinVertex i p s) ! i) = previousPosition (vertices s ! i)
       \<and> (\<forall>n s1. updates n (pinVertex i p s) = Inr s1 \<longrightarrow>
             vertices s1 ! i = (vertices s ! i)\<lparr>pinned := True, position := p\<rparr>
           \<and> vertices (unpinVertex i s1) ! i = (vertices s ! i)\<lparr>pinned := False, position := p\<rparr>
           \<and> (\<forall>dt s'. update dt (unpinVertex i s1) = Inr s' \<longrightarrow>
                 previousPosition (vertices s' ! i) = p
               \<and> velocity (vertices s' ! i) =
                   multiplyScalar (subVectors p (previousPosition (vertices s ! i))) 0.98
               \<and> (velocity (vertices s' ! i) = Vector3 0 0 0
                    \<longleftrightarrow> previousPosition (vertices s ! i) = p)))"
proof -
  note core = unpinVertex_next_update [OF assms]
  have pin: "vertices (pinVertex i p s) ! i = (vertices s ! i)\<lparr>pinned := True, position := p\<rparr>"
    using assms by (rule pinVertex_at)
  then have prev: "previousPosition (vertices (pinVertex i p s) ! i) = previousPosition (vertices s ! i)"
    by simp
  have seq: "vertices s1 ! i = (vertices s ! i)\<lparr>pinned := True, position := p\<rparr>
           \<and> vertices (unpinVertex i s1) ! i = (vertices s ! i)\<lparr>pinned := False, position := p\<rparr>
           \<and> (\<forall>dt s'. update dt (unpinVertex i s1) = Inr s' \<longrightarrow>
                 previousPosition (vertices s' ! i) = p
               \<and> velocity (vertices s' ! i) =
                   multiplyScalar (subVectors p (previousPosition (vertices s ! i))) 0.98
               \<and> (velocity (vertices s' ! i) = Vector3 0 0 0
                    \<longleftrightarrow> previousPosition (vertices s ! i) = p))"
    if r: "updates n (pinVertex i p s) = Inr s1" for n s1
  proof -
    have li: "i < length (vertices (pinVertex i p s))" using assms by (simp add: pinVertex_def)
    have pi: "pinned (vertices (pinVertex i p s) ! i)" using pin by simp
    from updates_keep_pinned [OF r li pi] pin
    have l1: "length (vertices s1) = length (vertices s)"
      and v1: "vertices s1 ! i = (vertices s ! i)\<lparr>pinned := True, position := p\<rparr>"
      by (simp_all add: pinVertex_def)
    have i1: "i < length (vertices s1)" using l1 assms by simp
    note c1 = unpinVertex_next_update [OF i1]
    have un: "vertices (unpinVertex i s1) ! i = (vertices s ! i)\<lparr>pinned := False, position := p\<rparr>"
      using c1 v1 by simp
    have nxt: "previousPosition (vertices s' ! i) = p
               \<and> velocity (vertices s' ! i) =
                   multiplyScalar (subVectors p (previousPosition (vertices s ! i))) 0.98
               \<and> (velocity (vertices s' ! i) = Vector3 0 0 0
                    \<longleftrightarrow> previousPosition (vertices s ! i) = p)"
      if u: "update dt (unpinVertex i s1) = Inr s'" for dt s'
    proof -
      from c1 u have
        "previousPosition (vertices s' ! i) = position (vertices s1 ! i)
         \<and> velocity (vertices s' ! i) =
             multiplyScalar (subVectors (position (vertices s1 ! i)) (previousPosition (vertices s1 ! i))) 0.98
         \<and> (velocity (vertices s' ! i) = Vector3 0 0 0
              \<longleftrightarrow> previousPosition (vertices s1 ! i) = position (vertices s1 ! i))"
        by blast
      then show ?thesis unfolding v1 by (simp add: multiplyScalar_zero_iff)
    qed
    from v1 un nxt show ?thesis by blast
  qed
  from core pin prev seq show ?thesis by blast
qed

text \<open>
  The theorem at the triangle cloth: vertex 0, created at the origin, is pinned to
  \<open>(0, 1, 0)\<close>, held there for two updates and then freed; the next update gives it the
  velocity \<open>(0, 0.98, 0)\<close>. Freed without having been moved, its velocity is zero.
\<close>

theorem unpinVertex_frame_witness:
  "(0::nat) < length (vertices triangle_cloth)
   \<and> vertices (unpinVertex 0 triangle_cloth) ! 2 = newVertex (Vector3 0 4 0)
   \<and> vertices (pinVertex 0 (Vector3 0 1 0) triangle_cloth) ! 0 =
       \<lparr>position = Vector3 0 1 0, previousPosition = Vector3 0 0 0, velocity = Vector3 0 0 0,
        pinned = True, mass = 1\<rparr>
   \<and> (\<exists>s1 s'. updates 2 (pinVertex 0 (Vector3 0 1 0) triangle_cloth) = Inr s1
         \<and> update (1 / 60) (unpinVertex 0 s1) = Inr s'
         \<and> vertices (unpinVertex 0 s1) ! 0 =
             \<lparr>position = Vector3 0 1 0, previousPosition = Vector3 0 0 0, velocity = Vector3 0 0 0,
              pinned = False, mass = 1\<rparr>
         \<and> previousPosition (vertices s' ! 0) = Vector3 0 1 0
         \<and> velocity (vertices s' ! 0) = Vector3 0 0.98 0)
   \<and> (\<exists>s'. update (1 / 60) (unpinVertex 0 triangle_cloth) = Inr s'
         \<and> previousPosition (vertices s' ! 0) = Vector3 0 0 0
         \<and> velocity (vertices s' ! 0) = Vector3 0 0 0)"
proof -
  let ?p = "Vector3 0 1 0"
  let ?s = "pinVertex 0 ?p triangle_cloth"
  have l: "(0::nat) < length (vertices triangle_cloth)" by (simp add: triangle_cloth_def)
  have v0: "vertices triangle_cloth ! 0 = newVertex (Vector3 0 0 0)"
    and v2: "vertices triangle_cloth ! 2 = newVertex (Vector3 0 4 0)"
    by (simp_all add: triangle_cloth_def)
  note t = unpinVertex_frame [OF l, of ?p]
  have oks: "constraints_ok ?s" using triangle_cloth_ok by (rule pinVertex_constraints_ok)
  have ls: "(0::nat) < length (vertices ?s)" and ps: "pinned (vertices ?s ! 0)"
    by (simp_all add: pinVertex_def triangle_cloth_def)
  from updates_pinned [OF oks ls ps, of 2] obtain s1 where
    r: "updates 2 ?s = Inr s1" by blast
  have "constraints_ok (unpinVertex 0 s1)"
    using updates_constraints_ok [OF oks r] by (rule unpinVertex_constraints_ok)
  then obtain s' where u: "update (1 / 60) (unpinVertex 0 s1) = Inr s'"
    using update_returns by blast
  have "constraints_ok (unpinVertex 0 triangle_cloth)"
    using triangle_cloth_ok by (rule unpinVertex_constraints_ok)
  then obtain s'' where u': "update (1 / 60) (unpinVertex 0 triangle_cloth) = Inr s''"
    using update_returns by blast
  from t have "\<forall>j. j \<noteq> 0 \<longrightarrow> vertices (unpinVertex 0 triangle_cloth) ! j = vertices triangle_cloth ! j"
    by blast
  then have "vertices (unpinVertex 0 triangle_cloth) ! 2 = vertices triangle_cloth ! 2"
    by (rule allE [of _ 2]) simp
  then have a: "vertices (unpinVertex 0 triangle_cloth) ! 2 = newVertex (Vector3 0 4 0)"
    using v2 by simp
  from t have "vertices ?s ! 0 = (vertices triangle_cloth ! 0)\<lparr>pinned := True, position := ?p\<rparr>"
    by blast
  then have b: "vertices ?s ! 0 =
       \<lparr>position = Vector3 0 1 0, previousPosition = Vector3 0 0 0, velocity = Vector3 0 0 0,
        pinned = True, mass = 1\<rparr>"
    by (simp add: v0 newVertex_def)
  from t r u have
    "vertices (unpinVertex 0 s1) ! 0 = (vertices triangle_cloth ! 0)\<lparr>pinned := False, position := ?p\<rparr>
     \<and> previousPosition (vertices s' ! 0) = ?p
     \<and> velocity (vertices s' ! 0) =
         multiplyScalar (subVectors ?p (previousPosition (vertices triangle_cloth ! 0))) 0.98"
    by blast
  then have c: "vertices (unpinVertex 0 s1) ! 0 =
             \<lparr>position = Vector3 0 1 0, previousPosition = Vector3 0 0 0, velocity = Vector3 0 0 0,
              pinned = False, mass = 1\<rparr>
         \<and> previousPosition (vertices s' ! 0) = Vector3 0 1 0
         \<and> velocity (vertices s' ! 0) = Vector3 0 0.98 0"
    by (simp add: v0 newVertex_def subVectors_def multiplyScalar_def)
  from t u' have
    "previousPosition (vertices s'' ! 0) = position (vertices triangle_cloth ! 0)
     \<and> velocity (vertices s'' ! 0) =
         multiplyScalar (subVectors (position (vertices triangle_cloth ! 0))
                                    (previousPosition (vertices triangle_cloth ! 0))) 0.98"
    by blast
  then have d: "previousPosition (vertices s'' ! 0) = Vector3 0 0 0
         \<and> velocity (vertices s'' ! 0) = Vector3 0 0 0"
    by (simp add: v0 newVertex_def subVectors_def multiplyScalar_def)
  from l a b r u c u' d show ?thesis by blast
qed

text \<open>
  Claim C10 as stated promises zero implied velocity on the next update. A cloth of one
  vertex created at the origin, pinned to \<open>(1, 0, 0)\<close> and freed again: the next update gives
  it the velocity \<open>(0.98, 0, 0)\<close> and moves it to \<open>(1.98, -0.0005, 0)\<close>.
\<close>

theorem unpin_zero_velocity_counterexample:
  "update (1 / 60) (unpinVertex 0 (pinVertex 0 (Vector3 1 0 0) single_cloth)) =
     Inr \<lparr>vertices = [\<lparr>position = Vector3 1.98 (- 0.0005) 0, previousPosition = Vector3 1 0 0,
                       velocity = Vector3 0.98 0 0, pinned = False, mass = 1\<rparr>],
          constraints = []\<rparr>
   \<and> Vector3 0.98 0 0 \<noteq> Vector3 0 0 0"
  by (simp add: update_def numeral_3_eq_3 unpinVertex_def pinVertex_def single_cloth_def newVertex_def
      integrateVertex_def Let_def damping_def gravity_def subVectors_def multiplyScalar_def addVectors_def)

subsection \<open>Garment geometry: the arrays that the loops build\<close>

lemma fold_append_concat:
  assumes "\<And>x acc. f x acc = acc @ g x"
  shows "fold f xs acc = acc @ concat (map g xs)"
  by (induction xs arbitrary: acc) (simp_all add: assms)

lemma fold_pair_lengths:
  assumes "\<And>x acc. length (fst (f x acc)) = length (fst acc) + k"
    and "\<And>x acc. length (snd (f x acc)) = length (snd acc) + m"
  shows "length (fst (fold f xs acc)) = length (fst acc) + k * length xs
       \<and> length (snd (fold f xs acc)) = length (snd acc) + m * length xs"
  by (induction xs arbitrary: acc) (simp_all add: assms)

lemma pushCell_append:
  "pushCell off gx y x idx =
     idx @ [off + y * (gx + 1) + x, off + y * (gx + 1) + x + (gx + 1), off + y * (gx + 1) + x + 1,
            off + y * (gx + 1) + x + 1, off + y * (gx + 1) + x + (gx + 1),
            off + y * (gx + 1) + x + (gx + 1) + 1]"
  by (simp add: pushCell_def Let_def)

lemma row_cells: "fold (pushCell off gx y) xs idx = idx @ concat (map (cell off gx y) xs)"
  by (rule fold_append_concat) (simp add: pushCell_append cell_def)

lemma grid_cells:
  "fold (\<lambda>y. fold (pushCell off gx y) xs) ys idx =
     idx @ concat (map (\<lambda>y. concat (map (cell off gx y) xs)) ys)"
  by (rule fold_append_concat) (simp add: row_cells)

lemma concat_uniform_length:
  "(\<And>x. x \<in> set xs \<Longrightarrow> length (f x) = k) \<Longrightarrow> length (concat (map f xs)) = k * length xs"
  by (induction xs) simp_all

lemma concat_uniform_drop:
  "(\<And>x. x \<in> set xs \<Longrightarrow> length (f x) = k) \<Longrightarrow> i < length xs \<Longrightarrow>
     take k (drop (k * i) (concat (map f xs))) = f (xs ! i)"
proof (induction xs arbitrary: i)
  case Nil
  then show ?case by simp
next
  case (Cons x xs)
  show ?case
  proof (cases i)
    case 0
    then show ?thesis using Cons.prems by simp
  next
    case (Suc j)
    have "k * Suc j = length (f x) + k * j" using Cons.prems by simp
    then show ?thesis using Suc Cons by simp
  qed
qed

lemma row_length: "length (concat (map (cell off gx y) xs)) = 6 * length xs"
  by (rule concat_uniform_length) (simp add: cell_def)

lemma grid_length:
  "length (concat (map (\<lambda>y. concat (map (cell off gx y) xs)) ys)) = 6 * length xs * length ys"
  using concat_uniform_length [of ys "\<lambda>y. concat (map (cell off gx y) xs)" "6 * length xs"]
  by (simp add: row_length)

lemma grid_cell_at:
  assumes "y < gy" and "x < gx"
  shows "take 6 (drop (6 * (y * gx + x))
           (concat (map (\<lambda>y. concat (map (cell off gx' y) [0 ..< gx])) [0 ..< gy])))
         = cell off gx' y x"
proof -
  let ?row = "\<lambda>y. concat (map (cell off gx' y) [0 ..< gx])"
  let ?all = "concat (map ?row [0 ..< gy])"
  have rowlen: "\<And>y. length (?row y) = 6 * gx" by (simp add: row_length)
  have "take (6 * gx) (drop (6 * gx * y) ?all) = ?row ([0 ..< gy] ! y)"
    by (rule concat_uniform_drop) (simp_all add: rowlen assms)
  then have r: "take (6 * gx) (drop (6 * gx * y) ?all) = ?row y" using assms by simp
  have c: "take 6 (drop (6 * x) (?row y)) = cell off gx' y x"
    using concat_uniform_drop [of "[0 ..< gx]" "cell off gx' y" 6 x] assms
    by (simp add: cell_def)
  have "take 6 (drop (6 * (y * gx + x)) ?all) = take 6 (drop (6 * x) (drop (6 * gx * y) ?all))"
    by (simp add: algebra_simps)
  also have "\<dots> = take 6 (drop (6 * x) (take (6 * gx) (drop (6 * gx * y) ?all)))"
    using assms by (simp add: drop_take min_def)
  also have "\<dots> = cell off gx' y x" using r c by simp
  finally show ?thesis .
qed

lemma triangles_of_cell:
  assumes "take 6 (drop (6 * n) idx) = [p, q, r, s, t, u]"
  shows "take 3 (drop (3 * (2 * n)) idx) = [p, q, r] \<and> take 3 (drop (3 * (2 * n + 1)) idx) = [s, t, u]"
proof -
  have "take 3 (drop (3 * (2 * n)) idx) = take 3 (take 6 (drop (6 * n) idx))"
    by simp
  then have 1: "take 3 (drop (3 * (2 * n)) idx) = [p, q, r]"
    unfolding assms by simp
  have "take 3 (drop (3 * (2 * n + 1)) idx) = take 3 (drop 3 (drop (6 * n) idx))"
    by (simp add: add.commute)
  also have "\<dots> = drop 3 (take 6 (drop (6 * n) idx))"
    by (simp add: drop_take)
  finally have 2: "take 3 (drop (3 * (2 * n + 1)) idx) = [s, t, u]"
    unfolding assms by simp
  from 1 2 show ?thesis by simp
qed

lemma grid_vertices_lengths:
  assumes "\<And>y x acc. length (fst (f y x acc)) = length (fst acc) + 3"
    and "\<And>y x acc. length (snd (f y x acc)) = length (snd acc) + 2"
  shows "length (fst (fold (\<lambda>y. fold (f y) xs) ys acc)) = length (fst acc) + 3 * length xs * length ys
       \<and> length (snd (fold (\<lambda>y. fold (f y) xs) ys acc)) = length (snd acc) + 2 * length xs * length ys"
proof -
  have row: "length (fst (fold (f y) xs acc)) = length (fst acc) + 3 * length xs
       \<and> length (snd (fold (f y) xs acc)) = length (snd acc) + 2 * length xs" for y acc
    by (rule fold_pair_lengths) (simp_all add: assms)
  show ?thesis
    using fold_pair_lengths [of "\<lambda>y. fold (f y) xs" "3 * length xs" "2 * length xs" ys acc] row
    by simp
qed

lemma shirt_arrays:
  "length (positionArray createShirtGeometry) = 429"
  "length (uvArray createShirtGeometry) = 286"
  "indexArray createShirtGeometry =
     Some (concat (map (\<lambda>y. concat (map (cell 0 12 y) [0 ..< 12])) [0 ..< 10]))"
  using grid_vertices_lengths [of "shirtVertex 12 10" "[0 ..< 13]" "[0 ..< 11]" "([], [])"]
  by (simp_all add: createShirtGeometry_def Let_def shirtVertex_def grid_cells del: upt_Suc)

lemma skirt_arrays:
  "length (positionArray createSkirtGeometry) = 495"
  "length (uvArray createSkirtGeometry) = 330"
  "indexArray createSkirtGeometry =
     Some (concat (map (\<lambda>y. concat (map (cell 0 14 y) [0 ..< 14])) [0 ..< 10]))"
  using grid_vertices_lengths [of "skirtVertex 14 10" "[0 ..< 15]" "[0 ..< 11]" "([], [])"]
  by (simp_all add: createSkirtGeometry_def Let_def skirtVertex_def grid_cells del: upt_Suc)

lemma pants_arrays:
  "length (positionArray createPantsGeometry) = 546"
  "length (uvArray createPantsGeometry) = 364"
  "indexArray createPantsGeometry =
     Some (concat (map (\<lambda>y. concat (map (cell 0 6 y) [0 ..< 6])) [0 ..< 12])
           @ concat (map (\<lambda>y. concat (map (cell 91 6 y) [0 ..< 6])) [0 ..< 12]))"
proof -
  let ?a1 = "fold (\<lambda>y. fold (leftLegVertex 6 12 y) [0 ..< 7]) [0 ..< 13] ([], [])"
  have l: "length (fst ?a1) = 273 \<and> length (snd ?a1) = 182"
    using grid_vertices_lengths [of "leftLegVertex 6 12" "[0 ..< 7]" "[0 ..< 13]" "([], [])"]
    by (simp add: leftLegVertex_def Let_def del: upt_Suc)
  have r: "length (fst (fold (\<lambda>y. fold (rightLegVertex 6 12 y) [0 ..< 7]) [0 ..< 13] ?a1)) = 546
         \<and> length (snd (fold (\<lambda>y. fold (rightLegVertex 6 12 y) [0 ..< 7]) [0 ..< 13] ?a1)) = 364"
    using grid_vertices_lengths [of "rightLegVertex 6 12" "[0 ..< 7]" "[0 ..< 13]" ?a1] l
    by (simp add: rightLegVertex_def Let_def del: upt_Suc)
  have legs: "[0 ..< 2] = [0, Suc 0]" by (simp add: upt_rec)
  show "length (positionArray createPantsGeometry) = 546"
    "length (uvArray createPantsGeometry) = 364"
    using r by (simp_all add: createPantsGeometry_def Let_def del: upt_Suc)
  show "indexArray createPantsGeometry =
     Some (concat (map (\<lambda>y. concat (map (cell 0 6 y) [0 ..< 6])) [0 ..< 12])
           @ concat (map (\<lambda>y. concat (map (cell 91 6 y) [0 ..< 6])) [0 ..< 12]))"
    by (simp add: createPantsGeometry_def Let_def legs grid_cells del: upt_Suc)
qed

lemma grid_triangles:
  assumes "indexArray g = Some (pre @ concat (map (\<lambda>y. concat (map (cell off gx' y) [0 ..< gx])) [0 ..< gy]) @ post)"
    and "length pre = 6 * m" and "y < gy" and "x < gx"
  shows "triangle g (2 * (m + y * gx + x)) =
           [off + y * (gx' + 1) + x, off + y * (gx' + 1) + x + (gx' + 1), off + y * (gx' + 1) + x + 1]
       \<and> triangle g (2 * (m + y * gx + x) + 1) =
           [off + y * (gx' + 1) + x + 1, off + y * (gx' + 1) + x + (gx' + 1),
            off + y * (gx' + 1) + x + (gx' + 1) + 1]"
proof -
  let ?grid = "concat (map (\<lambda>y. concat (map (cell off gx' y) [0 ..< gx])) [0 ..< gy])"
  let ?idx = "pre @ ?grid @ post"
  have n: "y * gx + x < gx * gy"
  proof -
    have "y * gx + x < y * gx + gx" using assms(4) by simp
    also have "\<dots> = (y + 1) * gx" by simp
    also have "\<dots> \<le> gy * gx" using assms(3) by (intro mult_le_mono1) simp
    finally show ?thesis by (simp add: mult.commute)
  qed
  have len: "length ?grid = 6 * gx * gy" by (simp add: grid_length)
  have "6 * (m + y * gx + x) = length pre + 6 * (y * gx + x)"
    using assms(2) by simp
  then have "take 6 (drop (6 * (m + y * gx + x)) ?idx) = take 6 (drop (6 * (y * gx + x)) (?grid @ post))"
    by (simp only: drop_append) simp
  also have "\<dots> = take 6 (drop (6 * (y * gx + x)) ?grid)"
    using n len by simp
  also have "\<dots> = cell off gx' y x"
    using assms(3,4) by (rule grid_cell_at)
  finally have "take 6 (drop (6 * (m + y * gx + x)) ?idx) =
      [off + y * (gx' + 1) + x, off + y * (gx' + 1) + x + (gx' + 1), off + y * (gx' + 1) + x + 1,
       off + y * (gx' + 1) + x + 1, off + y * (gx' + 1) + x + (gx' + 1),
       off + y * (gx' + 1) + x + (gx' + 1) + 1]"
    by (simp add: cell_def)
  from triangles_of_cell [OF this] show ?thesis
    by (simp add: triangle_def assms(1))
qed

subsection \<open>C4: vertex and triangle counts of the generated geometries\<close>

text \<open>
  Claim C4. The shirt has \<open>13 * 11 = 143\<close> vertices and \<open>12 * 10 * 2 = 240\<close> triangles, the
  pants \<open>2 * (7 * 13) = 182\<close> vertices and \<open>2 * (6 * 12 * 2) = 288\<close> triangles, the skirt
  \<open>15 * 11 = 165\<close> vertices and \<open>14 * 10 * 2 = 280\<close> triangles. The cell \<open>(x, y)\<close> of a grid
  contributes the two consecutive triangles \<open>(a, c, b)\<close> and \<open>(b, c, d)\<close> with
  \<open>a = row * stride + x\<close>, \<open>b = a + 1\<close>, \<open>c = a + stride\<close>, \<open>d = c + 1\<close>, where \<open>stride\<close> is the
  number of vertices of a row and \<open>row\<close> is the vertex row of the cell in the position
  buffer: \<open>y\<close> for the shirt and the skirt, and \<open>leg * 13 + y\<close> for the pants, whose two legs
  of 13 vertex rows each share one buffer.
\<close>

theorem garment_geometry_counts:
  "positionCount (createGarmentGeometry Shirt) = 13 * 11
   \<and> length (positionArray (createGarmentGeometry Shirt)) = 3 * 143
   \<and> triangleCount (createGarmentGeometry Shirt) = 12 * 10 * 2
   \<and> positionCount (createGarmentGeometry Pants) = 2 * (7 * 13)
   \<and> length (positionArray (createGarmentGeometry Pants)) = 3 * 182
   \<and> triangleCount (createGarmentGeometry Pants) = 2 * (6 * 12 * 2)
   \<and> positionCount (createGarmentGeometry Skirt) = 15 * 11
   \<and> length (positionArray (createGarmentGeometry Skirt)) = 3 * 165
   \<and> triangleCount (createGarmentGeometry Skirt) = 14 * 10 * 2
   \<and> (\<forall>y x. y < 10 \<and> x < 12 \<longrightarrow>
         (let a = y * 13 + x; b = a + 1; c = a + 13; d = c + 1
          in triangle (createGarmentGeometry Shirt) (2 * (y * 12 + x)) = [a, c, b]
           \<and> triangle (createGarmentGeometry Shirt) (2 * (y * 12 + x) + 1) = [b, c, d]))
   \<and> (\<forall>leg y x. leg < 2 \<and> y < 12 \<and> x < 6 \<longrightarrow>
         (let row = leg * 13 + y; a = row * 7 + x; b = a + 1; c = a + 7; d = c + 1
          in triangle (createGarmentGeometry Pants) (2 * (leg * 72 + y * 6 + x)) = [a, c, b]
           \<and> triangle (createGarmentGeometry Pants) (2 * (leg * 72 + y * 6 + x) + 1) = [b, c, d]))
   \<and> (\<forall>y x. y < 10 \<and> x < 14 \<longrightarrow>
         (let a = y * 15 + x; b = a + 1; c = a + 15; d = c + 1
          in triangle (createGarmentGeometry Skirt) (2 * (y * 14 + x)) = [a, c, b]
           \<and> triangle (createGarmentGeometry Skirt) (2 * (y * 14 + x) + 1) = [b, c, d]))"
proof -
  have counts:
    "positionCount (createGarmentGeometry Shirt) = 13 * 11"
    "length (positionArray (createGarmentGeometry Shirt)) = 3 * 143"
    "triangleCount (createGarmentGeometry Shirt) = 12 * 10 * 2"
    "positionCount (createGarmentGeometry Pants) = 2 * (7 * 13)"
    "length (positionArray (createGarmentGeometry Pants)) = 3 * 182"
    "triangleCount (createGarmentGeometry Pants) = 2 * (6 * 12 * 2)"
    "positionCount (createGarmentGeometry Skirt) = 15 * 11"
    "length (positionArray (createGarmentGeometry Skirt)) = 3 * 165"
    "triangleCount (createGarmentGeometry Skirt) = 14 * 10 * 2"
    by (simp_all add: positionCount_def triangleCount_def shirt_arrays pants_arrays skirt_arrays
        grid_length)
  have shirt: "triangle (createGarmentGeometry Shirt) (2 * (y * 12 + x)) = [y * 13 + x, y * 13 + x + 13, y * 13 + x + 1]
           \<and> triangle (createGarmentGeometry Shirt) (2 * (y * 12 + x) + 1) = [y * 13 + x + 1, y * 13 + x + 13, y * 13 + x + 13 + 1]"
    if "y < 10" "x < 12" for y x
    using grid_triangles [of createShirtGeometry "[]" 0 12 12 10 "[]" 0 y x] that
    by (simp add: shirt_arrays)
  have skirt: "triangle (createGarmentGeometry Skirt) (2 * (y * 14 + x)) = [y * 15 + x, y * 15 + x + 15, y * 15 + x + 1]
           \<and> triangle (createGarmentGeometry Skirt) (2 * (y * 14 + x) + 1) = [y * 15 + x + 1, y * 15 + x + 15, y * 15 + x + 15 + 1]"
    if "y < 10" "x < 14" for y x
    using grid_triangles [of createSkirtGeometry "[]" 0 14 14 10 "[]" 0 y x] that
    by (simp add: skirt_arrays)
  have left: "triangle (createGarmentGeometry Pants) (2 * (y * 6 + x)) = [y * 7 + x, y * 7 + x + 7, y * 7 + x + 1]
           \<and> triangle (createGarmentGeometry Pants) (2 * (y * 6 + x) + 1) = [y * 7 + x + 1, y * 7 + x + 7, y * 7 + x + 7 + 1]"
    if "y < 12" "x < 6" for y x
    using grid_triangles [of createPantsGeometry "[]" 0 6 6 12
        "concat (map (\<lambda>y. concat (map (cell 91 6 y) [0 ..< 6])) [0 ..< 12])" 0 y x] that
    by (simp add: pants_arrays)
  have right: "triangle (createGarmentGeometry Pants) (2 * (72 + y * 6 + x)) = [91 + y * 7 + x, 91 + y * 7 + x + 7, 91 + y * 7 + x + 1]
           \<and> triangle (createGarmentGeometry Pants) (2 * (72 + y * 6 + x) + 1) = [91 + y * 7 + x + 1, 91 + y * 7 + x + 7, 91 + y * 7 + x + 7 + 1]"
    if "y < 12" "x < 6" for y x
    using grid_triangles [of createPantsGeometry
        "concat (map (\<lambda>y. concat (map (cell 0 6 y) [0 ..< 6])) [0 ..< 12])" 91 6 6 12 "[]" 72 y x] that
    by (simp add: pants_arrays grid_length)
  have pants: "triangle (createGarmentGeometry Pants) (2 * (leg * 72 + y * 6 + x)) = [(leg * 13 + y) * 7 + x, (leg * 13 + y) * 7 + x + 7, (leg * 13 + y) * 7 + x + 1]
           \<and> triangle (createGarmentGeometry Pants) (2 * (leg * 72 + y * 6 + x) + 1) = [(leg * 13 + y) * 7 + x + 1, (leg * 13 + y) * 7 + x + 7, (leg * 13 + y) * 7 + x + 7 + 1]"
    if "leg < 2" "y < 12" "x < 6" for leg y x
  proof -
    from that(1) consider "leg = 0" | "leg = 1" by linarith
    then show ?thesis
    proof cases
      case 1
      then show ?thesis using left [OF that(2,3)] by simp
    next
      case 2
      then show ?thesis using right [OF that(2,3)] by simp
    qed
  qed
  show ?thesis
    unfolding Let_def using counts shirt pants skirt by (intro conjI allI impI) simp_all
qed

text \<open>The theorem at cell \<open>(5, 3)\<close> of the shirt, cell \<open>(3, 2)\<close> of the second leg of the
  pants and the last cell \<open>(13, 9)\<close> of the skirt.\<close>

theorem garment_geometry_counts_witness:
  "triangle (createGarmentGeometry Shirt) 82 = [44, 57, 45]
   \<and> triangle (createGarmentGeometry Shirt) 83 = [45, 57, 58]
   \<and> triangle (createGarmentGeometry Pants) 174 = [108, 115, 109]
   \<and> triangle (createGarmentGeometry Pants) 175 = [109, 115, 116]
   \<and> triangle (createGarmentGeometry Skirt) 278 = [148, 163, 149]
   \<and> triangle (createGarmentGeometry Skirt) 279 = [149, 163, 164]"
proof -
  note t = garment_geometry_counts
  from t have "(3::nat) < 10 \<and> (5::nat) < 12 \<longrightarrow>
         (let a = 3 * 13 + 5; b = a + 1; c = a + 13; d = c + 1
          in triangle (createGarmentGeometry Shirt) (2 * (3 * 12 + 5)) = [a, c, b]
           \<and> triangle (createGarmentGeometry Shirt) (2 * (3 * 12 + 5) + 1) = [b, c, d])"
    by blast
  then have 1: "triangle (createGarmentGeometry Shirt) 82 = [44, 57, 45]
      \<and> triangle (createGarmentGeometry Shirt) 83 = [45, 57, 58]"
    by (simp add: Let_def)
  from t have "(1::nat) < 2 \<and> (2::nat) < 12 \<and> (3::nat) < 6 \<longrightarrow>
         (let row = 1 * 13 + 2; a = row * 7 + 3; b = a + 1; c = a + 7; d = c + 1
          in triangle (createGarmentGeometry Pants) (2 * (1 * 72 + 2 * 6 + 3)) = [a, c, b]
           \<and> triangle (createGarmentGeometry Pants) (2 * (1 * 72 + 2 * 6 + 3) + 1) = [b, c, d])"
    by blast
  then have 2: "triangle (createGarmentGeometry Pants) 174 = [108, 115, 109]
      \<and> triangle (createGarmentGeometry Pants) 175 = [109, 115, 116]"
    by (simp add: Let_def)
  from t have "(9::nat) < 10 \<and> (13::nat) < 14 \<longrightarrow>
         (let a = 9 * 15 + 13; b = a + 1; c = a + 15; d = c + 1
          in triangle (createGarmentGeometry Skirt) (2 * (9 * 14 + 13)) = [a, c, b]
           \<and> triangle (createGarmentGeometry Skirt) (2 * (9 * 14 + 13) + 1) = [b, c, d])"
    by blast
  then have 3: "triangle (createGarmentGeometry Skirt) 278 = [148, 163, 149]
      \<and> triangle (createGarmentGeometry Skirt) 279 = [149, 163, 164]"
    by (simp add: Let_def)
  from 1 2 3 show ?thesis by simp
qed


subsection \<open>Skeleton and placement: evaluation on 33 landmarks, the pinning loop\<close>

lemma element_in_range: "i < length xs \<Longrightarrow> element xs i = Some (xs ! i)"
  by (simp add: element_def)

lemmas landmark_indices =
  LEFT_SHOULDER_def RIGHT_SHOULDER_def LEFT_ELBOW_def RIGHT_ELBOW_def LEFT_WRIST_def
  RIGHT_WRIST_def LEFT_HIP_def RIGHT_HIP_def LEFT_KNEE_def RIGHT_KNEE_def LEFT_ANKLE_def
  RIGHT_ANKLE_def

lemma extractSkeleton_33:
  assumes "length landmarks = 33"
  shows "extractSkeleton landmarks =
     Inr \<lparr>shoulders_left = landmarks ! 11, shoulders_right = landmarks ! 12,
          shoulders_center = getMidpoint (landmarks ! 11) (landmarks ! 12),
          hips_left = landmarks ! 23, hips_right = landmarks ! 24,
          hips_center = getMidpoint (landmarks ! 23) (landmarks ! 24),
          elbows_left = Some (landmarks ! 13), elbows_right = Some (landmarks ! 14),
          wrists_left = Some (landmarks ! 15), wrists_right = Some (landmarks ! 16),
          knees_left = Some (landmarks ! 25), knees_right = Some (landmarks ! 26),
          ankles_left = Some (landmarks ! 27), ankles_right = Some (landmarks ! 28),
          torsoLength = getDistance (getMidpoint (landmarks ! 11) (landmarks ! 12))
                                    (getMidpoint (landmarks ! 23) (landmarks ! 24)),
          shoulderWidth = getDistance (landmarks ! 11) (landmarks ! 12)\<rparr>"
  by (simp add: extractSkeleton_def landmark_indices element_in_range assms Let_def)

lemma createSkeleton3D_33:
  assumes "length landmarks = 33"
  shows "createSkeleton3D euler landmarks w h =
     Inr \<lparr>spine = bone euler ''spine''
                   (multiplyScalar (addVectors (landmarkToVector3 (landmarks ! 11) w h 2)
                                               (landmarkToVector3 (landmarks ! 12) w h 2)) 0.5)
                   (multiplyScalar (addVectors (landmarkToVector3 (landmarks ! 23) w h 2)
                                               (landmarkToVector3 (landmarks ! 24) w h 2)) 0.5),
          leftArm_shoulder = bone euler ''leftShoulder'' (landmarkToVector3 (landmarks ! 11) w h 2)
                                  (landmarkToVector3 (landmarks ! 13) w h 2),
          leftArm_elbow = bone euler ''leftElbow'' (landmarkToVector3 (landmarks ! 13) w h 2)
                                  (landmarkToVector3 (landmarks ! 15) w h 2),
          rightArm_shoulder = bone euler ''rightShoulder'' (landmarkToVector3 (landmarks ! 12) w h 2)
                                  (landmarkToVector3 (landmarks ! 14) w h 2),
          rightArm_elbow = bone euler ''rightElbow'' (landmarkToVector3 (landmarks ! 14) w h 2)
                                  (landmarkToVector3 (landmarks ! 16) w h 2),
          leftLeg_hip = bone euler ''leftHip'' (landmarkToVector3 (landmarks ! 23) w h 2)
                                  (landmarkToVector3 (landmarks ! 25) w h 2),
          leftLeg_knee = bone euler ''leftKnee'' (landmarkToVector3 (landmarks ! 25) w h 2)
                                  (landmarkToVector3 (landmarks ! 27) w h 2),
          rightLeg_hip = bone euler ''rightHip'' (landmarkToVector3 (landmarks ! 24) w h 2)
                                  (landmarkToVector3 (landmarks ! 26) w h 2),
          rightLeg_knee = bone euler ''rightKnee'' (landmarkToVector3 (landmarks ! 26) w h 2)
                                  (landmarkToVector3 (landmarks ! 28) w h 2)\<rparr>"
  unfolding createSkeleton3D_def extractSkeleton_33 [OF assms]
  by (simp add: Let_def)

text \<open>The validity check of the pose source is enough for \<open>extractSkeleton\<close> to return.\<close>

lemma isPoseValid_extracts:
  assumes "isPoseValid landmarks"
  shows "\<exists>sk. extractSkeleton landmarks = Inr sk
          \<and> shoulders_center sk = getMidpoint (landmarks ! 11) (landmarks ! 12)
          \<and> hips_center sk = getMidpoint (landmarks ! 23) (landmarks ! 24)"
  using assms
  by (auto simp: isPoseValid_def extractSkeleton_def element_def Let_def LEFT_SHOULDER_def
      RIGHT_SHOULDER_def LEFT_HIP_def RIGHT_HIP_def split: if_splits option.splits)

lemma sample_landmarks_length: "length sample_landmarks = 33"
  by (simp add: sample_landmarks_def)

lemma sample_landmarks_nth:
  "sample_landmarks ! 11 = \<lparr>lm_x = 0.2, lm_y = 0.15, lm_z = 0, visibility = Some 0.9\<rparr>"
  "sample_landmarks ! 12 = \<lparr>lm_x = 0.5, lm_y = 0.15, lm_z = 0, visibility = Some 0.9\<rparr>"
  "sample_landmarks ! 23 = \<lparr>lm_x = 0.2, lm_y = 0.3, lm_z = 0, visibility = Some 0.9\<rparr>"
  "sample_landmarks ! 24 = \<lparr>lm_x = 0.5, lm_y = 0.3, lm_z = 0, visibility = Some 0.9\<rparr>"
  "sample_landmarks ! 25 = \<lparr>lm_x = 0.2, lm_y = 0.325, lm_z = 0, visibility = Some 0.9\<rparr>"
  "sample_landmarks ! 26 = \<lparr>lm_x = 0.5, lm_y = 0.7, lm_z = 0, visibility = Some 0.9\<rparr>"
  by (simp_all add: sample_landmarks_def)

lemma pin_fold:
  assumes "k \<le> length (vertices ph)"
  shows "length (vertices (fold (\<lambda>i. pinVertex i (f i)) [0 ..< k] ph)) = length (vertices ph)
       \<and> constraints (fold (\<lambda>i. pinVertex i (f i)) [0 ..< k] ph) = constraints ph
       \<and> (\<forall>i < length (vertices ph).
            vertices (fold (\<lambda>i. pinVertex i (f i)) [0 ..< k] ph) ! i =
              (if i < k then (vertices ph ! i)\<lparr>pinned := True, position := f i\<rparr>
               else vertices ph ! i))"
  using assms
proof (induction k)
  case 0
  then show ?case by simp
next
  case (Suc k)
  let ?s = "fold (\<lambda>i. pinVertex i (f i)) [0 ..< k] ph"
  from Suc have ih: "length (vertices ?s) = length (vertices ph)"
    "constraints ?s = constraints ph"
    "\<forall>i < length (vertices ph). vertices ?s ! i =
        (if i < k then (vertices ph ! i)\<lparr>pinned := True, position := f i\<rparr> else vertices ph ! i)"
    by simp_all
  have step: "fold (\<lambda>i. pinVertex i (f i)) [0 ..< Suc k] ph = pinVertex k (f k) ?s"
    by simp
  have k: "k < length (vertices ?s)" using Suc.prems ih(1) by simp
  show ?case
    unfolding step
    using k ih Suc.prems
    by (auto simp: pinVertex_def nth_list_update less_Suc_eq)
qed

lemma sample_skeleton:
  "\<exists>sk. createSkeleton3D (\<lambda>a b. ()) sample_landmarks 640 480 = Inr sk
      \<and> bone_position (leftLeg_hip sk) = Vector3 (- 0.8) 0.4 0
      \<and> bone_position (rightLeg_hip sk) = Vector3 0 0.4 0
      \<and> bone_position (leftLeg_knee sk) = Vector3 (- 0.8) 0.35 0
      \<and> bone_position (rightLeg_knee sk) = Vector3 0 (- 0.4) 0"
  unfolding createSkeleton3D_33 [OF sample_landmarks_length]
  by (simp add: bone_def sample_landmarks_nth landmarkToVector3_def)

subsection \<open>C5: shoulder centre and hip centre are midpoints\<close>

text \<open>
  Claim C5. For every list of 33 landmarks, \<open>extractSkeleton\<close> and \<open>createSkeleton3D\<close> return,
  and: in landmark space each coordinate of the shoulder centre (hip centre) is the average
  of that coordinate of the left and right shoulder (hip) landmarks, which are landmarks 11
  and 12 (23 and 24); after the 3D conversion the spine position, which is the shoulder
  centre, is coordinate by coordinate the average of the two converted shoulder points,
  and the hip centre, from which the spine takes its length and its rotation, is the
  average of the two converted hip points.
\<close>

theorem skeleton_centers_are_midpoints:
  assumes "length landmarks = 33"
  shows "\<exists>sk s3. extractSkeleton landmarks = Inr sk
           \<and> createSkeleton3D euler landmarks w h = Inr s3
           \<and> shoulders_left sk = landmarks ! 11 \<and> shoulders_right sk = landmarks ! 12
           \<and> hips_left sk = landmarks ! 23 \<and> hips_right sk = landmarks ! 24
           \<and> lm_x (shoulders_center sk) = (lm_x (shoulders_left sk) + lm_x (shoulders_right sk)) / 2
           \<and> lm_y (shoulders_center sk) = (lm_y (shoulders_left sk) + lm_y (shoulders_right sk)) / 2
           \<and> lm_z (shoulders_center sk) = (lm_z (shoulders_left sk) + lm_z (shoulders_right sk)) / 2
           \<and> lm_x (hips_center sk) = (lm_x (hips_left sk) + lm_x (hips_right sk)) / 2
           \<and> lm_y (hips_center sk) = (lm_y (hips_left sk) + lm_y (hips_right sk)) / 2
           \<and> lm_z (hips_center sk) = (lm_z (hips_left sk) + lm_z (hips_right sk)) / 2
           \<and> bone_position (leftArm_shoulder s3) = landmarkToVector3 (landmarks ! 11) w h 2
           \<and> bone_position (rightArm_shoulder s3) = landmarkToVector3 (landmarks ! 12) w h 2
           \<and> bone_position (leftLeg_hip s3) = landmarkToVector3 (landmarks ! 23) w h 2
           \<and> bone_position (rightLeg_hip s3) = landmarkToVector3 (landmarks ! 24) w h 2
           \<and> bone_position (spine s3) =
               Vector3 ((vx (bone_position (leftArm_shoulder s3)) + vx (bone_position (rightArm_shoulder s3))) / 2)
                       ((vy (bone_position (leftArm_shoulder s3)) + vy (bone_position (rightArm_shoulder s3))) / 2)
                       ((vz (bone_position (leftArm_shoulder s3)) + vz (bone_position (rightArm_shoulder s3))) / 2)
           \<and> bone_length (spine s3) =
               distanceTo (bone_position (spine s3))
                 (Vector3 ((vx (bone_position (leftLeg_hip s3)) + vx (bone_position (rightLeg_hip s3))) / 2)
                          ((vy (bone_position (leftLeg_hip s3)) + vy (bone_position (rightLeg_hip s3))) / 2)
                          ((vz (bone_position (leftLeg_hip s3)) + vz (bone_position (rightLeg_hip s3))) / 2))
           \<and> bone_rotation (spine s3) =
               getRotationBetweenPoints euler (bone_position (spine s3))
                 (Vector3 ((vx (bone_position (leftLeg_hip s3)) + vx (bone_position (rightLeg_hip s3))) / 2)
                          ((vy (bone_position (leftLeg_hip s3)) + vy (bone_position (rightLeg_hip s3))) / 2)
                          ((vz (bone_position (leftLeg_hip s3)) + vz (bone_position (rightLeg_hip s3))) / 2))"
proof -
  have half: "multiplyScalar (addVectors a b) (1 / 2) =
      Vector3 ((vx a + vx b) / 2) ((vy a + vy b) / 2) ((vz a + vz b) / 2)" for a b
    by (simp add: multiplyScalar_def addVectors_def)
  show ?thesis
    unfolding extractSkeleton_33 [OF assms] createSkeleton3D_33 [OF assms]
    by (simp add: getMidpoint_def bone_def half)
qed

text \<open>The theorem at the sample pose, on a 640 by 480 canvas.\<close>

theorem skeleton_centers_are_midpoints_witness:
  "length sample_landmarks = 33
   \<and> (\<exists>sk s3. extractSkeleton sample_landmarks = Inr sk
         \<and> createSkeleton3D (\<lambda>a b. ()) sample_landmarks 640 480 = Inr s3
         \<and> lm_x (shoulders_center sk) = 0.35 \<and> lm_y (shoulders_center sk) = 0.15
         \<and> lm_z (shoulders_center sk) = 0
         \<and> lm_x (hips_center sk) = 0.35 \<and> lm_y (hips_center sk) = 0.3
         \<and> lm_z (hips_center sk) = 0
         \<and> bone_position (leftArm_shoulder s3) = Vector3 (- 0.8) 0.7 0
         \<and> bone_position (rightArm_shoulder s3) = Vector3 0 0.7 0
         \<and> bone_position (spine s3) = Vector3 (- 0.4) 0.7 0)"
proof -
  from skeleton_centers_are_midpoints [OF sample_landmarks_length, of "\<lambda>a b. ()" 640 480]
  obtain sk s3 where
    e: "extractSkeleton sample_landmarks = Inr sk"
    and c: "createSkeleton3D (\<lambda>a b. ()) sample_landmarks 640 480 = Inr s3"
    and l: "shoulders_left sk = sample_landmarks ! 11" "shoulders_right sk = sample_landmarks ! 12"
      "hips_left sk = sample_landmarks ! 23" "hips_right sk = sample_landmarks ! 24"
    and m: "lm_x (shoulders_center sk) = (lm_x (shoulders_left sk) + lm_x (shoulders_right sk)) / 2"
      "lm_y (shoulders_center sk) = (lm_y (shoulders_left sk) + lm_y (shoulders_right sk)) / 2"
      "lm_z (shoulders_center sk) = (lm_z (shoulders_left sk) + lm_z (shoulders_right sk)) / 2"
      "lm_x (hips_center sk) = (lm_x (hips_left sk) + lm_x (hips_right sk)) / 2"
      "lm_y (hips_center sk) = (lm_y (hips_left sk) + lm_y (hips_right sk)) / 2"
      "lm_z (hips_center sk) = (lm_z (hips_left sk) + lm_z (hips_right sk)) / 2"
    and p: "bone_position (leftArm_shoulder s3) = landmarkToVector3 (sample_landmarks ! 11) 640 480 2"
      "bone_position (rightArm_shoulder s3) = landmarkToVector3 (sample_landmarks ! 12) 640 480 2"
    and s: "bone_position (spine s3) =
               Vector3 ((vx (bone_position (leftArm_shoulder s3)) + vx (bone_position (rightArm_shoulder s3))) / 2)
                       ((vy (bone_position (leftArm_shoulder s3)) + vy (bone_position (rightArm_shoulder s3))) / 2)
                       ((vz (bone_position (leftArm_shoulder s3)) + vz (bone_position (rightArm_shoulder s3))) / 2)"
    by blast
  have vals: "lm_x (shoulders_center sk) = 0.35" "lm_y (shoulders_center sk) = 0.15"
      "lm_z (shoulders_center sk) = 0"
      "lm_x (hips_center sk) = 0.35" "lm_y (hips_center sk) = 0.3" "lm_z (hips_center sk) = 0"
    unfolding m l sample_landmarks_nth by simp_all
  have pos: "bone_position (leftArm_shoulder s3) = Vector3 (- 0.8) 0.7 0"
      "bone_position (rightArm_shoulder s3) = Vector3 0 0.7 0"
    unfolding p sample_landmarks_nth by (simp_all add: landmarkToVector3_def)
  have sp: "bone_position (spine s3) = Vector3 (- 0.4) 0.7 0"
    unfolding s pos by simp
  from e c vals pos sp sample_landmarks_length show ?thesis by blast
qed

subsection \<open>C6: placement of the pants\<close>

text \<open>
  Claim C6. When the skeleton has been built and the mesh and the physics exist,
  \<open>updateFromSkeleton\<close> for the pants returns and sets the mesh position to the midpoint of
  the two hip positions moved down by \<open>0.12\<close>, with \<open>z = 0.1\<close>; the scale to
  \<open>(hipWidth * 2.0, legLength * 1.25, 1)\<close>, where \<open>hipWidth\<close> is the distance of the two hips
  and \<open>legLength = max (left hip to left knee) (right hip to right knee) * 2\<close>; and it pins
  the vertices 0 to 6 (those that exist), vertex \<open>i\<close> to the point whose \<open>x\<close> is the linear
  interpolation of the two hip \<open>x\<close> at \<open>t = i / 6\<close>, whose \<open>y\<close> is the left hip \<open>y\<close> and whose
  \<open>z\<close> is \<open>0.1\<close>; all other vertices and the constraints are kept.
\<close>

theorem pants_placement:
  assumes "createSkeleton3D euler landmarks w h = Inr sk"
    and "garmentMesh r = Some mesh" and "physics r = Some ph"
  shows "\<exists>mesh' ph'.
           updateFromSkeleton euler Pants w h landmarks r =
             Inr (r\<lparr>garmentMesh := Some mesh', physics := Some ph'\<rparr>)
         \<and> (let leftHip = bone_position (leftLeg_hip sk);
                 rightHip = bone_position (rightLeg_hip sk);
                 leftKnee = bone_position (leftLeg_knee sk);
                 rightKnee = bone_position (rightLeg_knee sk);
                 hipWidth = distanceTo leftHip rightHip;
                 legLength = max (distanceTo leftHip leftKnee) (distanceTo rightHip rightKnee) * 2
             in mesh_position mesh' =
                  Vector3 ((vx leftHip + vx rightHip) / 2) ((vy leftHip + vy rightHip) / 2 - 0.12) 0.1
              \<and> mesh_scale mesh' = Vector3 (hipWidth * 2.0) (legLength * 1.25) 1
              \<and> length (vertices ph') = length (vertices ph)
              \<and> constraints ph' = constraints ph
              \<and> (\<forall>i < length (vertices ph).
                    vertices ph' ! i =
                      (if i < 7
                       then (vertices ph ! i)
                              \<lparr>pinned := True,
                               position := Vector3 (vx leftHip * (1 - real i / 6) + vx rightHip * (real i / 6))
                                                   (vy leftHip) 0.1\<rparr>
                       else vertices ph ! i)))"
proof -
  let ?mesh' = "placePants sk mesh"
  let ?k = "min 7 (length (vertices ph))"
  let ?f = "\<lambda>i. Vector3 (vx (bone_position (leftLeg_hip sk)) * (1 - real i / 6)
                            + vx (bone_position (rightLeg_hip sk)) * (real i / 6))
                         (vy (bone_position (leftLeg_hip sk))) 0.1"
  let ?ph' = "fold (\<lambda>i. pinVertex i (?f i)) [0 ..< ?k] ph"
  have pos: "mesh_position ?mesh' =
      Vector3 ((vx (bone_position (leftLeg_hip sk)) + vx (bone_position (rightLeg_hip sk))) / 2)
              ((vy (bone_position (leftLeg_hip sk)) + vy (bone_position (rightLeg_hip sk))) / 2 - 0.12) 0.1"
    by (simp add: placePants_def Let_def setY_def setZ_def multiplyScalar_def addVectors_def)
  have scale: "mesh_scale ?mesh' =
      Vector3 (distanceTo (bone_position (leftLeg_hip sk)) (bone_position (rightLeg_hip sk)) * 2.0)
              (max (distanceTo (bone_position (leftLeg_hip sk)) (bone_position (leftLeg_knee sk)))
                   (distanceTo (bone_position (rightLeg_hip sk)) (bone_position (rightLeg_knee sk))) * 2 * 1.25) 1"
    by (simp add: placePants_def Let_def)
  have pin: "pinTopVertex Pants sk ?mesh' 7 = (\<lambda>i. pinVertex i (?f i))"
    by (intro ext) (simp add: pinTopVertex_def Let_def pos setX_def setY_def)
  have run: "updateFromSkeleton euler Pants w h landmarks r =
      Inr (r\<lparr>garmentMesh := Some ?mesh', physics := Some ?ph'\<rparr>)"
    by (simp add: updateFromSkeleton_def assms Let_def getVertexCount_def pin del: upt_Suc)
  have k: "?k \<le> length (vertices ph)" by simp
  note pf = pin_fold [OF k, of ?f]
  have verts: "\<forall>i < length (vertices ph).
      vertices ?ph' ! i = (if i < 7 then (vertices ph ! i)\<lparr>pinned := True, position := ?f i\<rparr>
                           else vertices ph ! i)"
    using pf by simp
  show ?thesis
    unfolding Let_def
    using run pos scale pf verts by blast
qed

text \<open>The theorem at the sample pose, on a 640 by 480 canvas, with the triangle cloth as the
  physics: hips at \<open>(-0.8, 0.4, 0)\<close> and \<open>(0, 0.4, 0)\<close>, thighs of length \<open>0.05\<close> and \<open>0.8\<close>.\<close>

theorem pants_placement_witness:
  "\<exists>sk mesh' ph'.
      createSkeleton3D (\<lambda>a b. ()) sample_landmarks 640 480 = Inr sk
    \<and> garmentMesh sample_renderer = Some \<lparr>mesh_position = Vector3 0 0 0, mesh_scale = Vector3 1 1 1\<rparr>
    \<and> physics sample_renderer = Some triangle_cloth
    \<and> updateFromSkeleton (\<lambda>a b. ()) Pants 640 480 sample_landmarks sample_renderer =
         Inr (sample_renderer\<lparr>garmentMesh := Some mesh', physics := Some ph'\<rparr>)
    \<and> mesh_position mesh' = Vector3 (- 0.4) 0.28 0.1
    \<and> mesh_scale mesh' = Vector3 1.6 2 1
    \<and> vertices ph' ! 2 =
         \<lparr>position = Vector3 (- 8 / 15) 0.4 0.1, previousPosition = Vector3 0 4 0,
          velocity = Vector3 0 0 0, pinned = True, mass = 1\<rparr>"
proof -
  from sample_skeleton obtain sk where
    sk: "createSkeleton3D (\<lambda>a b. ()) sample_landmarks 640 480 = Inr sk"
    and b: "bone_position (leftLeg_hip sk) = Vector3 (- 0.8) 0.4 0"
      "bone_position (rightLeg_hip sk) = Vector3 0 0.4 0"
      "bone_position (leftLeg_knee sk) = Vector3 (- 0.8) 0.35 0"
      "bone_position (rightLeg_knee sk) = Vector3 0 (- 0.4) 0"
    by blast
  have m: "garmentMesh sample_renderer = Some \<lparr>mesh_position = Vector3 0 0 0, mesh_scale = Vector3 1 1 1\<rparr>"
    and p: "physics sample_renderer = Some triangle_cloth"
    by (simp_all add: sample_renderer_def)
  have d: "distanceTo (Vector3 (- 0.8) 0.4 0) (Vector3 0 0.4 0) = 0.8"
    "distanceTo (Vector3 (- 0.8) 0.4 0) (Vector3 (- 0.8) 0.35 0) = 0.05"
    "distanceTo (Vector3 0 0.4 0) (Vector3 0 (- 0.4) 0) = 0.8"
    by (simp_all add: distanceTo_def real_sqrt_divide)
  from pants_placement [OF sk m p] obtain mesh' ph' where
    u: "updateFromSkeleton (\<lambda>a b. ()) Pants 640 480 sample_landmarks sample_renderer =
         Inr (sample_renderer\<lparr>garmentMesh := Some mesh', physics := Some ph'\<rparr>)"
    and mp: "mesh_position mesh' =
         Vector3 ((vx (Vector3 (- 0.8) 0.4 0) + vx (Vector3 0 0.4 0)) / 2)
                 ((vy (Vector3 (- 0.8) 0.4 0) + vy (Vector3 0 0.4 0)) / 2 - 0.12) 0.1"
    and ms: "mesh_scale mesh' =
         Vector3 (distanceTo (Vector3 (- 0.8) 0.4 0) (Vector3 0 0.4 0) * 2.0)
                 (max (distanceTo (Vector3 (- 0.8) 0.4 0) (Vector3 (- 0.8) 0.35 0))
                      (distanceTo (Vector3 0 0.4 0) (Vector3 0 (- 0.4) 0)) * 2 * 1.25) 1"
    and vs: "\<forall>i < length (vertices triangle_cloth).
         vertices ph' ! i =
           (if i < 7
            then (vertices triangle_cloth ! i)
                   \<lparr>pinned := True,
                    position := Vector3 (vx (Vector3 (- 0.8) 0.4 0) * (1 - real i / 6)
                                           + vx (Vector3 0 0.4 0) * (real i / 6))
                                        (vy (Vector3 (- 0.8) 0.4 0)) 0.1\<rparr>
            else vertices triangle_cloth ! i)"
    unfolding Let_def b by (elim exE conjE) (rule that)
  have mp': "mesh_position mesh' = Vector3 (- 0.4) 0.28 0.1"
    unfolding mp by simp
  have ms': "mesh_scale mesh' = Vector3 1.6 2 1"
    unfolding ms d by simp
  have "(2::nat) < length (vertices triangle_cloth)" by (simp add: triangle_cloth_def)
  with vs have "vertices ph' ! 2 =
      (vertices triangle_cloth ! 2)
         \<lparr>pinned := True,
          position := Vector3 (vx (Vector3 (- 0.8) 0.4 0) * (1 - real 2 / 6)
                                 + vx (Vector3 0 0.4 0) * (real 2 / 6))
                              (vy (Vector3 (- 0.8) 0.4 0)) 0.1\<rparr>"
    by (elim allE [of _ 2]) simp
  then have v2: "vertices ph' ! 2 =
         \<lparr>position = Vector3 (- 8 / 15) 0.4 0.1, previousPosition = Vector3 0 4 0,
          velocity = Vector3 0 0 0, pinned = True, mass = 1\<rparr>"
    by (simp add: triangle_cloth_def newVertex_def)
  from sk m p u mp' ms' v2 show ?thesis by blast
qed

subsection \<open>Image extraction: strings\<close>

text \<open>The case of ASCII letters, the white space of the language on code units (\<open>U+0085\<close>,
  \<open>U+180E\<close> and \<open>U+200B\<close> are no white space), the dot and the comparison without regard to
  case: the Kelvin sign \<open>U+212A\<close> and the long s \<open>U+017F\<close> do not match \<open>k\<close> and \<open>s\<close> in a
  pattern without the flag \<open>u\<close>.\<close>

lemma toLower_letters:
  "map toLower ''ABCDEFGHIJKLMNOPQRSTUVWXYZ'' = ''abcdefghijklmnopqrstuvwxyz''"
  "map toLower ''abcdefghijklmnopqrstuvwxyz0123456789@[`{ <>/:.?='' = ''abcdefghijklmnopqrstuvwxyz0123456789@[`{ <>/:.?=''"
  by code_simp+

lemma foldCase_not_ascii: "h \<noteq> CHR 0x00 \<Longrightarrow> foldCase (CodeUnit h l) = CodeUnit h l"
  by (simp add: foldCase_def)

lemma isSpace_code_units:
  "list_all isSpace (whiteSpace @ lineTerminator)"
  "length (whiteSpace @ lineTerminator) = 25"
  "distinct (whiteSpace @ lineTerminator)"
  "isSpace nbsp"
  "\<not> isSpace (CodeUnit (CHR 0x00) (CHR 0x85))"
  "\<not> isSpace (CodeUnit (CHR 0x18) (CHR 0x0E))"
  "\<not> isSpace (CodeUnit (CHR 0x20) (CHR 0x0B))"
  by code_simp+

lemma trim_code_units:
  "trim ([nbsp, CodeUnit (CHR 0x20) (CHR 0x03)] @ str ''a b'' @ [CodeUnit (CHR 0xFE) (CHR 0xFF),
      CodeUnit (CHR 0x20) (CHR 0x29), CodeUnit (CHR 0x30) (CHR 0x00)]) = str ''a b''"
  by code_simp

lemma dot_line_terminators:
  "test imageExtension (str ''https://a.example/c.png?v='' @ [nbsp])"
  "\<not> test imageExtension (str ''https://a.example/c.png?v='' @ [CodeUnit (CHR 0x20) (CHR 0x28)])"
  "\<not> test imageExtension (str ''https://a.example/c.png?v='' @ [CodeUnit (CHR 0x00) (CHR 0x0A)])"
  by code_simp+

lemma ignore_case_code_units:
  "litPrefix (str ''imgBlkFront'') (str ''IMGBLKFRONT>'') = Some (str ''>'')"
  "litPrefix (str ''k'') [CodeUnit (CHR 0x21) (CHR 0x2A)] = None"
  "litPrefix (str ''s'') [CodeUnit (CHR 0x01) (CHR 0x7F)] = None"
  "litPrefix (str ''['') (str ''{'') = None"
  by code_simp+

subsection \<open>Image extraction: the validator and the loop over the patterns\<close>

lemma starts_slash_not_valid:
  "startsWith c (str ''/'') \<Longrightarrow> \<not> startsWith c (str ''//'') \<Longrightarrow> \<not> isValidImageUrl c"
  by (cases c) (auto simp: isValidImageUrl_def str_def fromCharCode_def)

lemma test_append: "test r s \<Longrightarrow> test r (p @ s)"
  by (induction p) simp_all

lemma includes_https:
  "x \<in> set invalidPatterns \<Longrightarrow> includes_str (str ''https:'' @ s) x = includes_str s x"
  by (auto simp: invalidPatterns_def str_def fromCharCode_def)

lemma valid_https_prefix:
  assumes "isValidImageUrl s" and "startsWith s (str ''//'')"
  shows "isValidImageUrl (str ''https:'' @ s)"
proof -
  have 1: "startsWith (str ''https:'' @ s) (str ''https://'')"
    using assms(2) by (simp add: str_def)
  have "\<not> list_ex (includes_str s) invalidPatterns"
    and v: "list_ex (\<lambda>pattern. test pattern s) validPatterns"
    using assms(1) by (simp_all add: isValidImageUrl_def split: if_splits)
  then have 2: "\<not> list_ex (includes_str (str ''https:'' @ s)) invalidPatterns"
    unfolding list_ex_iff using includes_https by blast
  have 3: "list_ex (\<lambda>pattern. test pattern (str ''https:'' @ s)) validPatterns"
    using v unfolding list_ex_iff using test_append by blast
  have 4: "str ''https:'' @ s \<noteq> []" by (simp add: str_def)
  show ?thesis
    unfolding isValidImageUrl_def using 1 2 3 4 by simp
qed

lemma processCandidate_valid:
  assumes "isValidImageUrl (trim m)"
  shows "processCandidate pf url m = Break (resolve (trim m))"
proof (cases "startsWith (trim m) (str ''//'')")
  case True
  then show ?thesis
    using assms valid_https_prefix [OF assms True]
    by (simp add: processCandidate_def Let_def resolve_def)
next
  case False
  with assms have "\<not> startsWith (trim m) (str ''/'')"
    using starts_slash_not_valid by blast
  with False assms show ?thesis
    by (simp add: processCandidate_def Let_def resolve_def)
qed

lemma processCandidate_root_relative:
  assumes "startsWith (trim m) (str ''/'')" and "\<not> startsWith (trim m) (str ''//'')"
  shows "processCandidate pf url m = Continue"
  using starts_slash_not_valid [OF assms] by (simp add: processCandidate_def Let_def)

lemma patternLoop_skip:
  "skipped html p \<Longrightarrow> patternLoop pf url html (p # rest) = patternLoop pf url html rest"
  by (auto simp: skipped_def processCandidate_def Let_def split: option.splits)

lemma valid_nonempty: "isValidImageUrl (trim g) \<Longrightarrow> g \<noteq> []"
  by (auto simp: isValidImageUrl_def trim_def)

lemma patternLoop_hit:
  "matchGroup p html = Some g \<Longrightarrow> isValidImageUrl (trim g) \<Longrightarrow>
     patternLoop pf url html (p # rest) = Break (resolve (trim g))"
  using valid_nonempty [of g] by (simp add: processCandidate_valid)

lemma og_patternLoop:
  assumes "matchGroup ogPropertyFirst html = Some c
           \<or> (skipped html ogPropertyFirst \<and> matchGroup ogContentFirst html = Some c)"
    and "isValidImageUrl (trim c)"
  shows "patternLoop pf url html imagePatterns = Break (resolve (trim c))"
  using assms(1)
proof
  assume "matchGroup ogPropertyFirst html = Some c"
  then show ?thesis
    unfolding imagePatterns_def using assms(2) by (rule patternLoop_hit)
next
  assume a: "skipped html ogPropertyFirst \<and> matchGroup ogContentFirst html = Some c"
  then have "patternLoop pf url html imagePatterns =
      patternLoop pf url html (tl imagePatterns)"
    unfolding imagePatterns_def by (simp only: patternLoop_skip list.sel)
  also have "\<dots> = Break (resolve (trim c))"
    unfolding imagePatterns_def list.sel using a assms(2) by (simp only: patternLoop_hit)
  finally show ?thesis .
qed

lemma page_url_not_direct: "\<not> test imageExtension page_url"
  by code_simp

lemma page_url_nonempty: "page_url \<noteq> []"
  by (simp add: page_url_def str_def)

lemma sample_fetch_page:
  "fetch (sample_platform html) page_url headers =
     Inr \<lparr>resp_ok = True, resp_status = 200, resp_text = str html, resp_arrayBuffer = html,
          resp_contentType = Some (str ''text/html'')\<rparr>"
  by (simp add: sample_platform_def)

lemma sample_fetch_image:
  "fetch (sample_platform html) (str ''https://img.example.com/p.png'') headers =
     Inr \<lparr>resp_ok = True, resp_status = 200, resp_text = str ''PNG'', resp_arrayBuffer = ''PNG'',
          resp_contentType = Some (str ''image/png'')\<rparr>"
  by (simp add: sample_platform_def page_url_def str_def fromCharCode_def)

lemma og_page_match:
  "matchGroup ogPropertyFirst (str og_page) = Some (str ''https://img.example.com/p.png'')"
  by code_simp

lemma og_candidate:
  "isValidImageUrl (trim (str ''https://img.example.com/p.png''))"
  "resolve (trim (str ''https://img.example.com/p.png'')) = str ''https://img.example.com/p.png''"
  by code_simp+

lemma two_tag_extract: "extractFromPage (sample_platform two_tag_page) page_url = Some page_url"
  by code_simp

lemma two_tag_second:
  "includes_str (str two_tag_page)
     (str ''<meta property=\"og:image\" content=\"https://img.example.com/p.png\">'')"
  by code_simp

lemma root_relative_match:
  "matchGroup ogPropertyFirst (str root_relative_page) = Some (str ''/images/p.png'')"
  by code_simp

lemma root_relative_extract:
  "extractFromPage (sample_platform root_relative_page) page_url = Some page_url"
  by code_simp

lemma og_equal_to_page_url_consults_json_ld:
  "matchGroup ogPropertyFirst (str self_og_page) = Some cdn_url
   \<and> isValidImageUrl cdn_url
   \<and> extractFromPage self_og_platform cdn_url = Some (str ''https://cdn.example.com/other.png'')"
  by code_simp

text \<open>White space outside ASCII: a no-break space after \<open><meta\<close> is matched by \<open>\s\<close>, so the
  first tag of \<open>nbsp_tag_page\<close> is the one selected; and \<open>trim\<close> removes a no-break space and
  \<open>U+FEFF\<close> around an address.\<close>

lemma nbsp_tag_match:
  "matchGroup ogPropertyFirst nbsp_tag_page = Some (str ''https://img.example.com/a.png'')"
  by code_simp

lemma nbsp_tag_candidate:
  "isValidImageUrl (trim (str ''https://img.example.com/a.png''))"
  "resolve (trim (str ''https://img.example.com/a.png'')) = str ''https://img.example.com/a.png''"
  by code_simp+

lemma nbsp_tag_selected:
  "patternLoop pf url nbsp_tag_page imagePatterns = Break (str ''https://img.example.com/a.png'')"
  using og_patternLoop [of nbsp_tag_page "str ''https://img.example.com/a.png''" pf url]
    nbsp_tag_match nbsp_tag_candidate by simp

lemma nbsp_address_match:
  "matchGroup ogPropertyFirst nbsp_address_page =
     Some ([nbsp] @ str ''https://img.example.com/p.png'' @ [CodeUnit (CHR 0xFE) (CHR 0xFF)])"
  by code_simp

lemma nbsp_address_candidate:
  "trim ([nbsp] @ str ''https://img.example.com/p.png'' @ [CodeUnit (CHR 0xFE) (CHR 0xFF)]) =
     str ''https://img.example.com/p.png''"
  by code_simp

lemma nbsp_address_selected:
  "patternLoop pf url nbsp_address_page imagePatterns = Break (str ''https://img.example.com/p.png'')"
proof -
  let ?c = "[nbsp] @ str ''https://img.example.com/p.png'' @ [CodeUnit (CHR 0xFE) (CHR 0xFF)]"
  have v: "isValidImageUrl (trim ?c)"
    unfolding nbsp_address_candidate using og_candidate(1) by code_simp
  have "patternLoop pf url nbsp_address_page imagePatterns = Break (resolve (trim ?c))"
    using disjI1 [OF nbsp_address_match] v by (rule og_patternLoop)
  also have "resolve (trim ?c) = str ''https://img.example.com/p.png''"
    by code_simp
  finally show ?thesis .
qed

subsection \<open>C7: a root-relative image address\<close>

text \<open>
  Claim C7 says that a root-relative candidate is resolved against the origin of the page
  and that the resolved address is fetched. On the page \<open>root_relative_page\<close> the Open
  Graph pattern captures \<open>/images/p.png\<close>, and the origin of the page address is known; but
  the candidate is rejected by the first call of \<open>isValidImageUrl\<close>, before the branch that
  would resolve it, so the loop goes on, nothing is found, and the service fetches the page
  address itself and returns the page as the image.
\<close>

theorem root_relative_image_not_resolved:
  "matchGroup ogPropertyFirst (str root_relative_page) = Some (str ''/images/p.png'')
   \<and> urlOrigin (sample_platform root_relative_page) page_url = Some (str ''https://shop.example.com'')
   \<and> processCandidate (sample_platform root_relative_page) page_url (str ''/images/p.png'') = Continue
   \<and> extractFromPage (sample_platform root_relative_page) page_url = Some page_url
   \<and> handler (sample_platform root_relative_page) (post_request page_url) =
       \<lparr>http_status = 200,
        http_body = Some \<lparr>success = True,
                          image_base64 = Some (str ''data:text/html;base64,'' @ btoa root_relative_page),
                          error_message = None\<rparr>\<rparr>"
proof -
  have o: "urlOrigin (sample_platform root_relative_page) page_url = Some (str ''https://shop.example.com'')"
    by (simp add: sample_platform_def)
  have c: "processCandidate (sample_platform root_relative_page) page_url (str ''/images/p.png'') = Continue"
    by (rule processCandidate_root_relative) code_simp+
  have p: "post_request page_url = \<lparr>req_method = str ''POST'', req_json = Inr (Some page_url)\<rparr>"
    by (simp add: post_request_def)
  have m: "str ''POST'' \<noteq> str ''OPTIONS''" by code_simp
  have d: "str ''data:'' @ str ''text/html'' @ str '';base64,'' @ b = str ''data:text/html;base64,'' @ b"
    for b by (simp add: str_def)
  have n: "str ''text/html'' \<noteq> []" by (simp add: str_def)
  have h: "handler (sample_platform root_relative_page) (post_request page_url) =
       \<lparr>http_status = 200,
        http_body = Some \<lparr>success = True,
                          image_base64 = Some (str ''data:text/html;base64,'' @ btoa root_relative_page),
                          error_message = None\<rparr>\<rparr>"
    using page_url_not_direct page_url_nonempty m
    by (simp add: handler_def p Let_def root_relative_extract sample_fetch_page d n)
  from root_relative_match o c root_relative_extract h show ?thesis by simp
qed

subsection \<open>C8: the Open Graph image is selected\<close>

text \<open>
  Claim C8, amended. Let the address not be a direct image address and the page be fetched;
  the text of the page is any string of code units, with the white space of the language.
  If the first match of the Open Graph pattern with \<open>property\<close> before \<open>content\<close> captures
  \<open>c\<close>, or that pattern is passed over and the first match of the pattern with \<open>content\<close>
  before \<open>property\<close> captures \<open>c\<close>; if \<open>c\<close>, trimmed, is accepted by \<open>isValidImageUrl\<close>; and
  if the address selected for it (with \<open>https:\<close> in front when it is protocol-relative)
  differs from the address of the page: then that address is the image address, whatever
  the Twitter, marketplace and lazy-loading patterns and the JSON-LD blocks hold (the result
  is the same with any JSON parser); and when the image is fetched, the response is a success
  whose \<open>image_base64\<close> is \<open>data:\<close>, the declared content type of the image (\<open>image/jpeg\<close>
  when none is declared), \<open>;base64,\<close> and the base64 of the bytes of the body.
\<close>

theorem og_image_selected:
  assumes "url \<noteq> []" and "\<not> test imageExtension url"
    and "fetch pf url pageHeaders = Inr pageResponse" and "resp_ok pageResponse"
    and "matchGroup ogPropertyFirst (resp_text pageResponse) = Some c
         \<or> (skipped (resp_text pageResponse) ogPropertyFirst
              \<and> matchGroup ogContentFirst (resp_text pageResponse) = Some c)"
    and "isValidImageUrl (trim c)"
    and "resolve (trim c) \<noteq> url"
    and "fetch pf (resolve (trim c)) (imageHeaders url) = Inr imageResponse"
    and "resp_ok imageResponse"
  shows "extractFromPage pf url = Some (resolve (trim c))
       \<and> extractFromPage (pf\<lparr>jsonParse := otherParser\<rparr>) url = Some (resolve (trim c))
       \<and> handler pf (post_request url) =
           \<lparr>http_status = 200,
            http_body = Some
              \<lparr>success = True,
               image_base64 = Some (str ''data:''
                   @ (case resp_contentType imageResponse of
                        None \<Rightarrow> str ''image/jpeg''
                      | Some declared \<Rightarrow> if declared = [] then str ''image/jpeg'' else declared)
                   @ str '';base64,'' @ btoa (resp_arrayBuffer imageResponse)),
               error_message = None\<rparr>\<rparr>"
proof -
  have loop: "patternLoop p url (resp_text pageResponse) imagePatterns = Break (resolve (trim c))"
    for p :: Platform
    using assms(5,6) by (rule og_patternLoop)
  have page: "extractFromPage p url = Some (resolve (trim c))"
    if "fetch p url pageHeaders = Inr pageResponse" for p :: Platform
    using that assms(4,7) by (simp add: extractFromPage_def Let_def loop)
  have 1: "extractFromPage pf url = Some (resolve (trim c))"
    using assms(3) by (rule page)
  have 2: "extractFromPage (pf\<lparr>jsonParse := otherParser\<rparr>) url = Some (resolve (trim c))"
    using assms(3) by (intro page) simp
  have p: "post_request url = \<lparr>req_method = str ''POST'', req_json = Inr (Some url)\<rparr>"
    by (simp add: post_request_def)
  have m: "str ''POST'' \<noteq> str ''OPTIONS''" by code_simp
  have 3: "handler pf (post_request url) =
           \<lparr>http_status = 200,
            http_body = Some
              \<lparr>success = True,
               image_base64 = Some (str ''data:''
                   @ (case resp_contentType imageResponse of
                        None \<Rightarrow> str ''image/jpeg''
                      | Some declared \<Rightarrow> if declared = [] then str ''image/jpeg'' else declared)
                   @ str '';base64,'' @ btoa (resp_arrayBuffer imageResponse)),
               error_message = None\<rparr>\<rparr>"
    using assms(1,2,8,9) m
    by (simp add: handler_def p Let_def 1)
  from 1 2 3 show ?thesis by simp
qed

text \<open>The theorem at the page of the specification's scenario.\<close>

theorem og_image_selected_witness:
  "extractFromPage (sample_platform og_page) page_url = Some (str ''https://img.example.com/p.png'')
   \<and> handler (sample_platform og_page) (post_request page_url) =
       \<lparr>http_status = 200,
        http_body = Some \<lparr>success = True, image_base64 = Some (str ''data:image/png;base64,UE5H''),
                          error_message = None\<rparr>\<rparr>"
proof -
  let ?pf = "sample_platform og_page"
  let ?page = "\<lparr>resp_ok = True, resp_status = 200, resp_text = str og_page, resp_arrayBuffer = og_page,
                 resp_contentType = Some (str ''text/html'')\<rparr>"
  let ?img = "\<lparr>resp_ok = True, resp_status = 200, resp_text = str ''PNG'', resp_arrayBuffer = ''PNG'',
                resp_contentType = Some (str ''image/png'')\<rparr>"
  let ?c = "str ''https://img.example.com/p.png''"
  have h3: "fetch ?pf page_url pageHeaders = Inr ?page" by (rule sample_fetch_page)
  have h4: "resp_ok ?page" by simp
  have h5: "matchGroup ogPropertyFirst (resp_text ?page) = Some ?c
         \<or> (skipped (resp_text ?page) ogPropertyFirst
              \<and> matchGroup ogContentFirst (resp_text ?page) = Some ?c)"
    using og_page_match by simp
  have h7: "resolve (trim ?c) \<noteq> page_url"
    unfolding og_candidate(2) by code_simp
  have h8: "fetch ?pf (resolve (trim ?c)) (imageHeaders page_url) = Inr ?img"
    unfolding og_candidate(2) by (rule sample_fetch_image)
  have h9: "resp_ok ?img" by simp
  have b: "btoa ''PNG'' = str ''UE5H''" by code_simp
  have d: "str ''data:'' @ str ''image/png'' @ str '';base64,'' @ str ''UE5H'' =
      str ''data:image/png;base64,UE5H''"
    by (simp add: str_def)
  have n: "str ''image/png'' \<noteq> []" by (simp add: str_def)
  from og_image_selected [OF page_url_nonempty page_url_not_direct h3 h4 h5 og_candidate(1) h7 h8 h9]
  show ?thesis
    unfolding og_candidate(2) by (simp add: b d n)
qed

text \<open>
  Claim C8 as stated speaks of every page that contains a valid Open Graph image tag. The
  page \<open>two_tag_page\<close> contains the tag of the specification's scenario, whose address is
  accepted by \<open>isValidImageUrl\<close>, after another Open Graph image tag whose address is not
  accepted. Only the first match of a pattern is looked at: no image is found, and the
  service returns the page itself as the image.
\<close>

theorem second_og_tag_not_selected:
  "isValidImageUrl (str ''https://img.example.com/p.png'')
   \<and> includes_str (str two_tag_page)
        (str ''<meta property=\"og:image\" content=\"https://img.example.com/p.png\">'')
   \<and> extractFromPage (sample_platform two_tag_page) page_url = Some page_url
   \<and> handler (sample_platform two_tag_page) (post_request page_url) =
       \<lparr>http_status = 200,
        http_body = Some \<lparr>success = True,
                          image_base64 = Some (str ''data:text/html;base64,'' @ btoa two_tag_page),
                          error_message = None\<rparr>\<rparr>"
proof -
  have v: "isValidImageUrl (str ''https://img.example.com/p.png'')" by code_simp
  have p: "post_request page_url = \<lparr>req_method = str ''POST'', req_json = Inr (Some page_url)\<rparr>"
    by (simp add: post_request_def)
  have m: "str ''POST'' \<noteq> str ''OPTIONS''" by code_simp
  have d: "str ''data:'' @ str ''text/html'' @ str '';base64,'' @ b = str ''data:text/html;base64,'' @ b"
    for b by (simp add: str_def)
  have n: "str ''text/html'' \<noteq> []" by (simp add: str_def)
  have h: "handler (sample_platform two_tag_page) (post_request page_url) =
       \<lparr>http_status = 200,
        http_body = Some \<lparr>success = True,
                          image_base64 = Some (str ''data:text/html;base64,'' @ btoa two_tag_page),
                          error_message = None\<rparr>\<rparr>"
    using page_url_not_direct page_url_nonempty m
    by (simp add: handler_def p Let_def two_tag_extract sample_fetch_page d n)
  from v two_tag_second two_tag_extract h show ?thesis by simp
qed

end
